theory Spec2Isabelle
  imports Complex_Main
begin

unbundle bit_operations_syntax

section \<open>Feature finding in trackpy: a shallow embedding of \<open>trackpy/feature.py\<close>\<close>

text \<open>
  The theory follows \<open>feature.py\<close> function by function: \<open>percentile_threshold\<close>,
  \<open>local_maxima\<close>, \<open>estimate_mass\<close>, \<open>estimate_size\<close>, \<open>_safe_center_of_mass\<close>,
  \<open>refine\<close> with its two engines \<open>_refine\<close> and \<open>_numba_refine\<close>, and \<open>locate\<close>.

  Conventions of the embedding.
  \<^item> Exceptions are values: a function that can raise returns \<open>error + 'a\<close>.
  \<^item> Warnings are collected in a list that the function returns beside its result.
  \<^item> A finite floating-point number is an exact real: rounding is not modelled.
    Where the code divides or takes square roots without a guard, the value is an
    \<open>fl\<close>, which adds the two infinities and NaN with their IEEE rules (the sign of
    zero is not tracked: a zero divisor counts as \<open>+0\<close>).
  \<^item> Modules of the package that \<open>feature.py\<close> imports (\<open>masks\<close>, \<open>preprocessing\<close>,
    \<open>uncertainty\<close>, \<open>try_numba\<close>) and the spline shift of \<open>scipy.ndimage\<close> are the
    fields of a record \<open>ext\<close> that every function takes as its first argument.
\<close>

subsection \<open>Errors and warnings\<close>

datatype error =
  TypeError | ValueError | IndexError | NotImplementedError | RuntimeError | ZeroDivisionError

datatype warning =
    BlackImage              \<comment> \<open>"Image is completely black."\<close>
  | NoLocalMaxima           \<comment> \<open>"Image contains no local maxima."\<close>
  | AllInMargins            \<comment> \<open>"All local maxima were in the margins."\<close>
  | NoPrefilterSurvivors    \<comment> \<open>"No maxima survived mass- and size-based prefiltering."\<close>
  | NoFilterSurvivors       \<comment> \<open>"No maxima survived mass- and size-based filtering."\<close>
  | ColorImage              \<comment> \<open>"I am interpreting the image as ..."\<close>
  | NumbaMissing            \<comment> \<open>"numba could not be imported ..."\<close>

definition ebind :: "error + 'a \<Rightarrow> ('a \<Rightarrow> error + 'b) \<Rightarrow> error + 'b" where
  "ebind m f = (case m of Inl e \<Rightarrow> Inl e | Inr x \<Rightarrow> f x)"

fun emap :: "('a \<Rightarrow> error + 'b) \<Rightarrow> 'a list \<Rightarrow> error + 'b list" where
  "emap f [] = Inr []"
| "emap f (x # xs) =
     (case f x of Inl e \<Rightarrow> Inl e
      | Inr y \<Rightarrow> (case emap f xs of Inl e \<Rightarrow> Inl e | Inr ys \<Rightarrow> Inr (y # ys)))"

subsection \<open>Floating-point values that may be infinite or NaN\<close>

datatype fl = Fin real | PInf | NInf | NaN

fun isnan :: "fl \<Rightarrow> bool" where
  "isnan NaN = True"
| "isnan _ = False"

fun fl_neg :: "fl \<Rightarrow> fl" where
  "fl_neg (Fin a) = Fin (- a)"
| "fl_neg PInf = NInf"
| "fl_neg NInf = PInf"
| "fl_neg NaN = NaN"

fun fl_add :: "fl \<Rightarrow> fl \<Rightarrow> fl" where
  "fl_add (Fin a) (Fin b) = Fin (a + b)"
| "fl_add NaN _ = NaN"
| "fl_add _ NaN = NaN"
| "fl_add PInf NInf = NaN"
| "fl_add NInf PInf = NaN"
| "fl_add PInf _ = PInf"
| "fl_add NInf _ = NInf"
| "fl_add _ PInf = PInf"
| "fl_add _ NInf = NInf"

definition fl_sub :: "fl \<Rightarrow> fl \<Rightarrow> fl" where
  "fl_sub a b = fl_add a (fl_neg b)"

fun fl_sgn_inf :: "real \<Rightarrow> fl" where
  "fl_sgn_inf s = (if s = 0 then NaN else if 0 < s then PInf else NInf)"

fun fl_mul :: "fl \<Rightarrow> fl \<Rightarrow> fl" where
  "fl_mul (Fin a) (Fin b) = Fin (a * b)"
| "fl_mul NaN _ = NaN"
| "fl_mul _ NaN = NaN"
| "fl_mul PInf (Fin b) = fl_sgn_inf b"
| "fl_mul NInf (Fin b) = fl_sgn_inf (- b)"
| "fl_mul (Fin a) PInf = fl_sgn_inf a"
| "fl_mul (Fin a) NInf = fl_sgn_inf (- a)"
| "fl_mul PInf PInf = PInf"
| "fl_mul NInf NInf = PInf"
| "fl_mul PInf NInf = NInf"
| "fl_mul NInf PInf = NInf"

fun fl_div :: "fl \<Rightarrow> fl \<Rightarrow> fl" where
  "fl_div (Fin a) (Fin b) = (if b = 0 then fl_sgn_inf a else Fin (a / b))"
| "fl_div NaN _ = NaN"
| "fl_div _ NaN = NaN"
| "fl_div (Fin a) _ = Fin 0"
| "fl_div PInf (Fin b) = (if 0 \<le> b then PInf else NInf)"
| "fl_div NInf (Fin b) = (if 0 \<le> b then NInf else PInf)"
| "fl_div _ _ = NaN"

text \<open>
  \<open>np.sqrt\<close> on a non-negative finite number. The square root is not computed when
  the model is run on examples: it stays a symbol there.
\<close>

definition np_sqrt :: "real \<Rightarrow> real" where
  "np_sqrt x = sqrt x"

declare np_sqrt_def [code del]

fun fl_sqrt :: "fl \<Rightarrow> fl" where
  "fl_sqrt (Fin a) = (if a < 0 then NaN else Fin (np_sqrt a))"
| "fl_sqrt PInf = PInf"
| "fl_sqrt _ = NaN"

fun fl_abs :: "fl \<Rightarrow> fl" where
  "fl_abs (Fin a) = Fin \<bar>a\<bar>"
| "fl_abs NaN = NaN"
| "fl_abs _ = PInf"

text \<open>Comparisons: every comparison with NaN is false.\<close>

fun fl_lt :: "fl \<Rightarrow> fl \<Rightarrow> bool" where
  "fl_lt (Fin a) (Fin b) = (a < b)"
| "fl_lt NaN _ = False"
| "fl_lt _ NaN = False"
| "fl_lt PInf _ = False"
| "fl_lt _ NInf = False"
| "fl_lt _ _ = True"

definition fl_gt :: "fl \<Rightarrow> fl \<Rightarrow> bool" where
  "fl_gt a b = fl_lt b a"

fun fl_eq :: "fl \<Rightarrow> fl \<Rightarrow> bool" where
  "fl_eq NaN _ = False"
| "fl_eq _ NaN = False"
| "fl_eq a b = (a = b)"

definition fl_le :: "fl \<Rightarrow> fl \<Rightarrow> bool" where
  "fl_le a b = (fl_lt a b \<or> fl_eq a b)"

subsection \<open>Arrays\<close>

text \<open>
  An array is its shape and its items, read at an index vector. Items are only ever
  read inside the shape: \<open>indices\<close> lists the index vectors of a shape in numpy's scan
  order (the last axis runs fastest). An image is an array with an element type; a
  frame of a movie also carries its frame number (the attribute \<open>frame_no\<close>).
\<close>

datatype dtype = UInt nat | SInt nat | Floating

fun is_integer :: "dtype \<Rightarrow> bool" where
  "is_integer Floating = False"
| "is_integer _ = True"

fun iinfo_max :: "dtype \<Rightarrow> int" where
  "iinfo_max (UInt b) = 2 ^ b - 1"
| "iinfo_max (SInt b) = 2 ^ (b - 1) - 1"
| "iinfo_max Floating = 0"

record ndarray =
  shape :: "nat list"
  item :: "int list \<Rightarrow> real"

record image = ndarray +
  dtype :: dtype
  frame_no :: "int option"

fun indices :: "nat list \<Rightarrow> int list list" where
  "indices [] = [[]]"
| "indices (n # ns) = concat (map (\<lambda>i. map ((#) (int i)) (indices ns)) [0..<n])"

definition ndim :: "'a ndarray_scheme \<Rightarrow> nat" where
  "ndim a = length (shape a)"

definition items :: "'a ndarray_scheme \<Rightarrow> real list" where
  "items a = map (item a) (indices (shape a))"

definition asum :: "'a ndarray_scheme \<Rightarrow> real" where
  "asum a = sum_list (items a)"

text \<open>\<open>a.max()\<close>: numpy raises \<open>ValueError\<close> on an array with no items.\<close>

definition amax :: "'a ndarray_scheme \<Rightarrow> error + real" where
  "amax a = (case items a of [] \<Rightarrow> Inl ValueError | v # vs \<Rightarrow> Inr (fold max vs v))"

text \<open>
  A parameter that is "a single number or a tuple" (docstring of \<open>locate\<close>).
\<close>

datatype 'a sot = Scalar 'a | Tuple "'a list"

text \<open>
  Modelled from the spec: \<open>utils.validate_tuple\<close> is not among the sources. The
  docstring of \<open>locate\<close> and the spec's data model say that such a parameter is a single
  number, which stands for every axis, or a tuple with one entry per image axis; the
  spec's error taxonomy makes everything else an invalid argument.
\<close>

fun validate_tuple :: "'a sot \<Rightarrow> nat \<Rightarrow> error + 'a list" where
  "validate_tuple (Scalar v) n = Inr (replicate n v)"
| "validate_tuple (Tuple vs) n = (if length vs = n then Inr vs else Inl ValueError)"

text \<open>
  numpy's broadcasting of one-dimensional operands: lengths are compatible when they are
  equal or one of them is 1; an operand of length 1 is read at index 0 throughout.
\<close>

definition bc_ok :: "nat \<Rightarrow> nat \<Rightarrow> bool" where
  "bc_ok m n = (m = n \<or> m = 1 \<or> n = 1)"

definition bc_len :: "nat \<Rightarrow> nat \<Rightarrow> nat" where
  "bc_len m n = (if m = 1 then n else m)"

definition bc :: "'a list \<Rightarrow> nat \<Rightarrow> 'a" where
  "bc xs j = (if length xs = 1 then xs ! 0 else xs ! j)"

fun as_list :: "'a sot \<Rightarrow> 'a list" where
  "as_list (Scalar v) = [v]"
| "as_list (Tuple vs) = vs"

text \<open>
  \<open>a[slices]\<close> for a list of slices \<open>slice(start, stop)\<close>, with Python's rules: a negative
  bound counts from the end, bounds are clipped to the axis, an empty range gives length
  0, axes beyond the list are taken whole, and more slices than axes raise \<open>IndexError\<close>.
\<close>

definition slice_bounds :: "int \<times> int \<Rightarrow> nat \<Rightarrow> int \<times> nat" where
  "slice_bounds sl n =
     (let norm = (\<lambda>v. if v < 0 then max 0 (v + int n) else min v (int n));
          s = norm (fst sl); e = norm (snd sl)
      in (s, nat (e - s)))"

definition getslices :: "'a ndarray_scheme \<Rightarrow> (int \<times> int) list \<Rightarrow> error + ndarray" where
  "getslices a sls =
     (if length (shape a) < length sls then Inl IndexError
      else let bs = map2 slice_bounds sls (shape a);
               starts = map fst bs @ replicate (length (shape a) - length sls) 0
           in Inr \<lparr>shape = map snd bs @ drop (length sls) (shape a),
                   item = (\<lambda>idx. item a (map2 (+) starts idx))\<rparr>)"

text \<open>
  \<open>a * b\<close> on arrays, with numpy's broadcasting: shapes are aligned at the last axis,
  missing leading axes count as 1, and axes must agree or one of them be 1;
  otherwise \<open>ValueError\<close>.
\<close>

definition pad_shape :: "nat \<Rightarrow> nat list \<Rightarrow> nat list" where
  "pad_shape n s = replicate (n - length s) 1 @ s"

definition bc_index :: "nat list \<Rightarrow> int list \<Rightarrow> int list" where
  "bc_index s idx =
     map2 (\<lambda>n i. if n = 1 then 0 else i) s (drop (length idx - length s) idx)"

definition np_mul :: "'a ndarray_scheme \<Rightarrow> 'b ndarray_scheme \<Rightarrow> error + ndarray" where
  "np_mul a b =
     (let n = max (length (shape a)) (length (shape b));
          sa = pad_shape n (shape a); sb = pad_shape n (shape b)
      in if list_all2 bc_ok sa sb
         then Inr \<lparr>shape = map2 bc_len sa sb,
                   item = (\<lambda>idx. item a (bc_index (shape a) idx) * item b (bc_index (shape b) idx))\<rparr>
         else Inl ValueError)"

subsection \<open>Collaborators outside \<open>feature.py\<close>\<close>

text \<open>
  The table that \<open>locate\<close> returns (a pandas \<open>DataFrame\<close>): column names and rows.
\<close>

record table =
  columns :: "string list"
  rows :: "fl list list"

text \<open>
  What \<open>feature.py\<close> imports from the rest of the package and does not define:
  the mask factory (\<open>masks.py\<close>), the preprocessor (\<open>preprocessing.py\<close>), the uncertainty
  model (\<open>uncertainty.py\<close>), the flag \<open>NUMBA_AVAILABLE\<close> (\<open>try_numba.py\<close>); and
  \<open>scipy.ndimage.shift\<close> with \<open>order=2, mode='constant', cval=0\<close>. They are parameters of
  the model: the general theorems hold for every choice of them.

  Of a mask the parameter gives the entries only: \<open>binary_mask E r i\<close> is the entry at
  index \<open>i\<close> of the mask for the radius vector \<open>r\<close>, and \<open>cosmask E r i\<close> that of the
  angular mask for the radius \<open>r\<close>.
\<close>

record ext =
  NUMBA_AVAILABLE :: bool
  binary_mask :: "int list \<Rightarrow> int list \<Rightarrow> real"
  r_squared_mask :: "int list \<Rightarrow> int list \<Rightarrow> real"
  cosmask :: "int \<Rightarrow> int list \<Rightarrow> real"
  sinmask :: "int \<Rightarrow> int list \<Rightarrow> real"
  bandpass :: "image \<Rightarrow> real list \<Rightarrow> int list \<Rightarrow> real option \<Rightarrow> error + image"
  scale_to_gamut :: "image \<Rightarrow> dtype \<Rightarrow> image"
  measure_noise :: "image \<Rightarrow> int list \<Rightarrow> real option \<Rightarrow> fl \<times> fl"
  static_error :: "table \<Rightarrow> fl \<Rightarrow> int \<Rightarrow> real \<Rightarrow> fl list"
  ndimage_shift :: "ndarray \<Rightarrow> real list \<Rightarrow> ndarray"

text \<open>
  Modelled from the spec: \<open>masks.py\<close> is not among the sources. By the spec's data
  model all masks for a radius vector \<open>r\<close> share the shape \<open>(2 r\<^sub>0 + 1, \<dots>, 2 r\<^sub>d\<^sub>-\<^sub>1 + 1)\<close>,
  and the radius is a number or has one entry per axis (\<open>validate_tuple\<close>).
\<close>

definition mask_shape :: "int list \<Rightarrow> nat list" where
  "mask_shape r = map (\<lambda>rk. nat (2 * rk + 1)) r"

definition mask_array :: "(int list \<Rightarrow> int list \<Rightarrow> real) \<Rightarrow> int sot \<Rightarrow> nat \<Rightarrow> error + ndarray" where
  "mask_array f radius n =
     (case validate_tuple radius n of
        Inl e \<Rightarrow> Inl e
      | Inr r \<Rightarrow> Inr \<lparr>shape = mask_shape r, item = f r\<rparr>)"

subsection \<open>Library functions of numpy and scipy that the detector calls\<close>

text \<open>
  \<open>np.percentile(a, q)\<close> on a non-empty one-dimensional array, with numpy's default
  linear interpolation between the two closest ranks; \<open>q\<close> outside \<open>[0, 100]\<close> raises
  \<open>ValueError\<close>.
\<close>

definition np_percentile :: "real list \<Rightarrow> real \<Rightarrow> error + real" where
  "np_percentile a q =
     (if q < 0 \<or> 100 < q then Inl ValueError
      else let s = sort a; n = length s;
               rank = q / 100 * real (n - 1);
               lo = nat \<lfloor>rank\<rfloor>; hi = min (lo + 1) (n - 1)
           in Inr (s ! lo + (rank - real lo) * (s ! hi - s ! lo)))"

text \<open>
  \<open>ndimage.grey_dilation(input, footprint=footprint, mode='constant')\<close>: at each
  position the maximum of the input over the footprint, mirrored and centred at
  \<open>shape // 2\<close>, where positions outside the input read 0. scipy rejects a footprint
  whose rank differs from the input's (\<open>RuntimeError\<close>) and one with no true entry
  (\<open>ValueError\<close>).
\<close>

definition inside :: "nat list \<Rightarrow> int list \<Rightarrow> bool" where
  "inside s x = (length x = length s \<and> list_all2 (\<lambda>i n. 0 \<le> i \<and> i < int n) x s)"

definition read0 :: "'a ndarray_scheme \<Rightarrow> int list \<Rightarrow> real" where
  "read0 a x = (if inside (shape a) x then item a x else 0)"

definition grey_dilation :: "'a ndarray_scheme \<Rightarrow> ndarray \<Rightarrow> error + ndarray" where
  "grey_dilation input footprint =
     (let offs = filter (\<lambda>o'. item footprint o' \<noteq> 0) (indices (shape footprint));
          c = map (\<lambda>n. int (n div 2)) (shape footprint)
      in if length (shape footprint) \<noteq> length (shape input) then Inl RuntimeError
         else case offs of [] \<Rightarrow> Inl ValueError
         | o1 # os \<Rightarrow>
             Inr \<lparr>shape = shape input,
                  item = (\<lambda>x. let rd = (\<lambda>o'. read0 input (map2 (+) (map2 (-) x o') c))
                              in fold (\<lambda>o' m. max (rd o') m) os (rd o1))\<rparr>)"

subsection \<open>\<open>percentile_threshold\<close> and \<open>local_maxima\<close>\<close>

text \<open>
  \<open>percentile_threshold\<close>: the percentile of the non-zero pixels, NaN when there are
  none.
\<close>

definition percentile_threshold :: "'a ndarray_scheme \<Rightarrow> real \<Rightarrow> error + fl" where
  "percentile_threshold img percentile =
     (let not_black = filter (\<lambda>v. v \<noteq> 0) (items img)
      in if length not_black = 0 then Inr NaN
         else case np_percentile not_black percentile of
                Inl e \<Rightarrow> Inl e | Inr t \<Rightarrow> Inr (Fin t))"

text \<open>
  The edge test of \<open>local_maxima\<close> for one row \<open>x\<close> of \<open>maxima\<close>:
  \<open>np.any((maxima < margin) | (maxima > (shape - margin - 1)), 1)\<close>. The operands
  broadcast: \<open>margin\<close> is a number or a sequence, \<open>shape\<close> and \<open>x\<close> have one entry per
  axis.
\<close>

definition near_edge :: "nat list \<Rightarrow> int list \<Rightarrow> int list \<Rightarrow> bool" where
  "near_edge shp margin x =
     list_ex (\<lambda>j. bc x j < bc margin j \<or> bc x j > int (bc shp j) - bc margin j - 1)
       [0..<bc_len (length shp) (length margin)]"

definition local_maxima ::
  "ext \<Rightarrow> image \<Rightarrow> int sot \<Rightarrow> real \<Rightarrow> int sot option
     \<Rightarrow> error + (warning list \<times> int list list)" where
  "local_maxima E img radius percentile margin0 =
     (let margin = (case margin0 of None \<Rightarrow> radius | Some m \<Rightarrow> m);
          ndim = length (shape img)
      in case percentile_threshold img percentile of
           Inl e \<Rightarrow> Inl e
         | Inr threshold \<Rightarrow>
             if isnan threshold then Inr ([BlackImage], [])
             else if \<not> is_integer (dtype img) then Inl TypeError
             else case mask_array (binary_mask E) radius ndim of
               Inl e \<Rightarrow> Inl e
             | Inr footprint \<Rightarrow>
                (case grey_dilation img footprint of
                   Inl e \<Rightarrow> Inl e
                 | Inr dilation \<Rightarrow>
                    let maxima = filter (\<lambda>x. item img x = item dilation x
                                             \<and> fl_gt (Fin (item img x)) threshold)
                                   (indices (shape img))
                    in if \<not> length maxima * ndim > 0 then Inr ([NoLocalMaxima], [])
                       else if \<not> bc_ok ndim (length (as_list margin)) then Inl ValueError
                       else let maxima' = filter (\<lambda>x. \<not> near_edge (shape img) (as_list margin) x) maxima
                            in Inr (if \<not> length maxima' * ndim > 0 then [AllInMargins] else [],
                                    maxima')))"

text \<open>
  Vocabulary for the statements about \<open>local_maxima\<close>: the margin on axis \<open>k\<close> of a
  margin given as a number or as one entry per axis, and an image with no non-zero
  pixel.
\<close>

definition axis_margin :: "int sot \<Rightarrow> nat \<Rightarrow> int" where
  "axis_margin m k = (case m of Scalar v \<Rightarrow> v | Tuple vs \<Rightarrow> vs ! k)"

definition per_axis :: "'a sot \<Rightarrow> nat \<Rightarrow> bool" where
  "per_axis m n = (case m of Scalar v \<Rightarrow> True | Tuple vs \<Rightarrow> length vs = n)"


subsection \<open>\<open>refine\<close>: eliminating duplicates\<close>

text \<open>
  The array \<open>results\<close> of \<open>refine\<close> has one row per feature: the position (in reversed
  axis order), the mass, and with \<open>characterize\<close> the size, eccentricity and signal.

  \<open>positions = results[:, :mass_index] / list(reversed(separation))\<close>, one row of it:
  the division broadcasts the reversed separation over the position columns.
\<close>

definition scaled_position :: "real list \<Rightarrow> nat \<Rightarrow> fl list \<Rightarrow> fl list" where
  "scaled_position rsep mass_index row =
     (let p = take mass_index row
      in map (\<lambda>j. fl_div (bc p j) (Fin (bc rsep j))) [0..<bc_len (length p) (length rsep)])"

text \<open>
  \<open>cKDTree(positions, 30).query_pairs(1)\<close> is scipy's: the set of index pairs
  \<open>(i, j)\<close>, \<open>i < j\<close>, of points whose Euclidean distance is at most 1. The model lists
  them by brute force; a distance that is NaN pairs nothing.
\<close>

definition fl_sum :: "fl list \<Rightarrow> fl" where
  "fl_sum xs = fold (\<lambda>x s. fl_add s x) xs (Fin 0)"

definition sqdist :: "fl list \<Rightarrow> fl list \<Rightarrow> fl" where
  "sqdist p q = fl_sum (map2 (\<lambda>a b. fl_mul (fl_sub a b) (fl_sub a b)) p q)"

definition query_pairs :: "fl list list \<Rightarrow> (nat \<times> nat) list" where
  "query_pairs ps =
     concat (map (\<lambda>i. map (\<lambda>j. (i, j))
                        (filter (\<lambda>j. fl_le (sqdist (ps ! i) (ps ! j)) (Fin 1)) [Suc i..<length ps]))
                 [0..<length ps])"

text \<open>
  Which member of a pair is dropped. \<open>np.argsort([a, b])[0]\<close> is 0 unless \<open>b\<close> sorts
  strictly first (NaN sorts last); \<open>np.argmin([a, b])\<close> is the first NaN if there is
  one, else the first minimum.
\<close>

definition argsort2_first :: "fl \<Rightarrow> fl \<Rightarrow> nat" where
  "argsort2_first a b = (if fl_lt b a \<or> (isnan a \<and> \<not> isnan b) then 1 else 0)"

definition argmin2 :: "fl \<Rightarrow> fl \<Rightarrow> nat" where
  "argmin2 a b = (if isnan a then 0 else if isnan b then 1 else if fl_lt b a then 1 else 0)"

definition dimmer :: "fl list list \<Rightarrow> fl list \<Rightarrow> nat \<times> nat \<Rightarrow> nat" where
  "dimmer positions mass pair =
     (let a = fst pair; b = snd pair;
          d = (if fl_eq (mass ! a) (mass ! b)
               then argsort2_first (fl_sum (positions ! a)) (fl_sum (positions ! b))
               else argmin2 (mass ! a) (mass ! b))
      in [a, b] ! d)"

text \<open>\<open>np.delete(results, to_drop, 0)\<close>: the rows whose index is not in \<open>to_drop\<close>.\<close>

definition np_delete :: "'a list \<Rightarrow> nat list \<Rightarrow> 'a list" where
  "np_delete xs to_drop =
     map snd (filter (\<lambda>p. fst p \<notin> set to_drop) (zip [0..<length xs] xs))"

text \<open>
  One pass of the \<open>while True\<close> loop of \<open>refine\<close>, for the pairs in the order in which
  the set \<open>duplicates\<close> happens to be traversed, and the loop itself.
\<close>

definition drop_pass :: "real list \<Rightarrow> nat \<Rightarrow> (nat \<times> nat) list \<Rightarrow> fl list list \<Rightarrow> fl list list" where
  "drop_pass rsep mass_index duplicates results =
     (let positions = map (scaled_position rsep mass_index) results;
          mass = map (\<lambda>row. row ! mass_index) results;
          to_drop = map (dimmer positions mass) duplicates
      in np_delete results to_drop)"

definition find_duplicates :: "real list \<Rightarrow> nat \<Rightarrow> fl list list \<Rightarrow> (nat \<times> nat) list" where
  "find_duplicates rsep mass_index results =
     query_pairs (map (scaled_position rsep mass_index) results)"

function eliminate_duplicates :: "real list \<Rightarrow> nat \<Rightarrow> fl list list \<Rightarrow> fl list list" where
  "eliminate_duplicates rsep mass_index results =
     (let duplicates = find_duplicates rsep mass_index results
      in if length duplicates = 0 then results
         else eliminate_duplicates rsep mass_index
                (drop_pass rsep mass_index duplicates results))"
  by pat_completeness auto
termination
proof (relation "measure (\<lambda>(rsep, mass_index, results). length results)")
  show "wf (measure (\<lambda>(rsep, mass_index, results). length results))" by simp
next
  fix rsep :: "real list" and mass_index :: nat and results :: "fl list list"
    and duplicates :: "(nat \<times> nat) list"
  assume d: "duplicates = find_duplicates rsep mass_index results"
    and ne: "length duplicates \<noteq> 0"
  define positions where "positions = map (scaled_position rsep mass_index) results"
  define mass where "mass = map (\<lambda>row. row ! mass_index) results"
  from ne obtain pr where pr: "pr \<in> set duplicates" by (cases duplicates) auto
  then have lt: "fst pr < snd pr \<and> snd pr < length results"
    unfolding d find_duplicates_def query_pairs_def by auto
  have "dimmer positions mass pr = fst pr \<or> dimmer positions mass pr = snd pr"
    by (simp add: dimmer_def Let_def argsort2_first_def argmin2_def)
  with lt have "dimmer positions mass pr < length results" by auto
  moreover have "dimmer positions mass pr \<in> set (map (dimmer positions mass) duplicates)"
    using pr by simp
  ultimately have "\<exists>p \<in> set (zip [0..<length results] results).
      \<not> fst p \<notin> set (map (dimmer positions mass) duplicates)"
    by (metis (no_types, lifting) add_0 fst_conv in_set_zip length_upt diff_zero nth_upt
        nth_zip length_zip min.idem nth_mem)
  then have "length (filter (\<lambda>p. fst p \<notin> set (map (dimmer positions mass) duplicates))
                (zip [0..<length results] results)) < length (zip [0..<length results] results)"
    by (metis length_filter_less)
  then have "length (drop_pass rsep mass_index duplicates results) < length results"
    by (simp add: drop_pass_def np_delete_def Let_def positions_def mass_def)
  then show "((rsep, mass_index, drop_pass rsep mass_index duplicates results),
              (rsep, mass_index, results))
             \<in> measure (\<lambda>(rsep, mass_index, results). length results)"
    by simp
qed

subsection \<open>Neighbourhoods, \<open>estimate_mass\<close> and \<open>estimate_size\<close>\<close>

text \<open>
  \<open>[slice(c - rad, c + rad + 1) for c, rad in zip(coord, radius)]\<close> and the masked
  neighbourhood \<open>mask * img[rect]\<close>.
\<close>

definition slices :: "int list \<Rightarrow> int list \<Rightarrow> (int \<times> int) list" where
  "slices coord radius = map2 (\<lambda>c rad. (c - rad, c + rad + 1)) coord radius"

definition masked :: "ndarray \<Rightarrow> 'a ndarray_scheme \<Rightarrow> (int \<times> int) list \<Rightarrow> error + ndarray" where
  "masked msk img rect =
     (case getslices img rect of Inl e \<Rightarrow> Inl e | Inr square \<Rightarrow> np_mul msk square)"

text \<open>\<open>a[idx]\<close> with integer indices: a negative index counts from the end.\<close>

definition getitem :: "'a ndarray_scheme \<Rightarrow> int list \<Rightarrow> error + real" where
  "getitem a idx =
     (let idx' = map2 (\<lambda>i n. if i < 0 then i + int n else i) idx (shape a)
      in if length idx = length (shape a) \<and> inside (shape a) idx'
         then Inr (item a idx') else Inl IndexError)"

definition estimate_mass :: "ext \<Rightarrow> image \<Rightarrow> int list \<Rightarrow> int list \<Rightarrow> error + real" where
  "estimate_mass E img radius coord =
     (let square = slices coord radius
      in case mask_array (binary_mask E) (Tuple radius) (length (shape img)) of
           Inl e \<Rightarrow> Inl e
         | Inr msk \<Rightarrow>
            (case masked msk img square of
               Inl e \<Rightarrow> Inl e
             | Inr neighborhood \<Rightarrow> Inr (asum neighborhood)))"

definition estimate_size :: "ext \<Rightarrow> image \<Rightarrow> int list \<Rightarrow> int list \<Rightarrow> real \<Rightarrow> error + fl" where
  "estimate_size E img radius coord estimated_mass =
     (let square = slices coord radius
      in case mask_array (binary_mask E) (Tuple radius) (length (shape img)) of
           Inl e \<Rightarrow> Inl e
         | Inr msk \<Rightarrow>
            (case masked msk img square of
               Inl e \<Rightarrow> Inl e
             | Inr neighborhood \<Rightarrow>
                (case mask_array (r_squared_mask E) (Tuple radius) (length (shape img)) of
                   Inl e \<Rightarrow> Inl e
                 | Inr r2 \<Rightarrow>
                    (case np_mul r2 neighborhood of
                       Inl e \<Rightarrow> Inl e
                     | Inr weighted \<Rightarrow>
                         Inr (fl_sqrt (fl_div (Fin (asum weighted)) (Fin estimated_mass)))))))"

subsection \<open>\<open>_safe_center_of_mass\<close>\<close>

text \<open>
  \<open>grids\<close> is the open grid of the mask's shape, given here by that shape: along axis
  \<open>dim\<close> the grid holds the index, and on an axis of extent 1 it broadcasts its only
  entry, 0.
\<close>

definition safe_center_of_mass :: "ndarray \<Rightarrow> int list \<Rightarrow> nat list \<Rightarrow> real list" where
  "safe_center_of_mass x radius grids =
     (let normalizer = asum x
      in if normalizer = 0 then map real_of_int radius
         else map (\<lambda>dim. sum_list (map (\<lambda>i. item x i *
                                          (if grids ! dim = 1 then 0 else real_of_int (i ! dim)))
                                     (indices (shape x)))
                           / normalizer)
                  [0..<length (shape x)])"

subsection \<open>\<open>_refine\<close>: the pure Python engine\<close>

definition SHIFT_THRESH :: real where
  "SHIFT_THRESH = 6 / 10"

definition GOOD_ENOUGH_THRESH :: real where
  "GOOD_ENOUGH_THRESH = 5 / 1000"

text \<open>
  The variables of the loop over \<open>iteration\<close> for one feature. \<open>rect\<close> is the slice at
  the integer anchor; \<open>coord\<close> is integral until the first interpolation.
\<close>

record rstate =
  coord :: "real list"
  rect :: "(int \<times> int) list"
  neighborhood :: ndarray
  cm_n :: "real list"
  cm_i :: "real list"
  allow_moves :: bool

datatype event =
    Converged       \<comment> \<open>the offset is below the threshold: \<open>break\<close>\<close>
  | Moved           \<comment> \<open>the anchor walks by whole pixels\<close>
  | Interpolated    \<comment> \<open>the neighbourhood is shifted by a fraction of a pixel\<close>
  | Stopped         \<comment> \<open>\<open>_numba_refine\<close> only: its \<open>else: break\<close> in place of the interpolation\<close>

text \<open>\<open>.astype(int)\<close> truncates towards zero; \<open>np.clip(a, lo, hi)\<close> is \<open>min (max a lo) hi\<close>.\<close>

definition astype_int :: "real \<Rightarrow> int" where
  "astype_int v = (if 0 \<le> v then \<lfloor>v\<rfloor> else \<lceil>v\<rceil>)"

definition np_clip :: "real \<Rightarrow> real \<Rightarrow> real \<Rightarrow> real" where
  "np_clip a lo hi = min (max a lo) hi"

text \<open>
  One pass through the body of the loop: the branch taken and the variables after it.
  On \<open>Converged\<close> the loop breaks.
\<close>

definition refine_step ::
  "ext \<Rightarrow> image \<Rightarrow> ndarray \<Rightarrow> int list \<Rightarrow> rstate \<Rightarrow> error + (event \<times> rstate)" where
  "refine_step E img msk radius st =
     (let off_center = map2 (-) (cm_n st) (map real_of_int radius)
      in if list_all (\<lambda>oc. \<bar>oc\<bar> < GOOD_ENOUGH_THRESH) off_center then Inr (Converged, st)
         else if list_ex (\<lambda>oc. \<bar>oc\<bar> > SHIFT_THRESH) off_center \<and> allow_moves st then
           (let shifted = map2 (\<lambda>c oc. if oc > SHIFT_THRESH then c + 1
                                       else if oc < - SHIFT_THRESH then c - 1 else c)
                               (coord st) off_center;
                upper_bound = map2 (\<lambda>n rad. real_of_int (int n - 1 - rad)) (shape img) radius;
                new_coord = map astype_int
                              (map2 (\<lambda>c (lo, hi). np_clip c lo hi) shifted
                                    (zip (map real_of_int radius) upper_bound));
                rect' = slices new_coord radius
            in case masked msk img rect' of
                 Inl e \<Rightarrow> Inl e
               | Inr nb \<Rightarrow>
                  (let cm = safe_center_of_mass nb radius (shape msk)
                   in Inr (Moved,
                           st\<lparr>coord := map real_of_int new_coord, rect := rect',
                              neighborhood := nb, cm_n := cm,
                              cm_i := map2 (+) (map2 (-) cm (map real_of_int radius))
                                               (map real_of_int new_coord)\<rparr>)))
         else
           (let nb = ndimage_shift E (neighborhood st) (map uminus off_center);
                new_coord = map2 (+) (coord st) off_center;
                cm = safe_center_of_mass nb radius (shape msk)
            in Inr (Interpolated,
                    st\<lparr>coord := new_coord, neighborhood := nb, allow_moves := False,
                       cm_n := cm,
                       cm_i := map2 (+) (map2 (-) cm (map real_of_int radius)) new_coord\<rparr>)))"

text \<open>
  \<open>for iteration in range(max_iterations)\<close>: the list of branches taken, each with the
  slice that is current after it, and the variables at the end.
\<close>

fun refine_loop ::
  "ext \<Rightarrow> image \<Rightarrow> ndarray \<Rightarrow> int list \<Rightarrow> nat \<Rightarrow> rstate
     \<Rightarrow> error + ((event \<times> (int \<times> int) list) list \<times> rstate)" where
  "refine_loop E img msk radius 0 st = Inr ([], st)"
| "refine_loop E img msk radius (Suc k) st =
     (case refine_step E img msk radius st of
        Inl e \<Rightarrow> Inl e
      | Inr (ev, st') \<Rightarrow>
          if ev = Converged then Inr ([(ev, rect st')], st')
          else (case refine_loop E img msk radius k st' of
                  Inl e \<Rightarrow> Inl e
                | Inr (evs, st'') \<Rightarrow> Inr ((ev, rect st') # evs, st'')))"

definition initial_state :: "ndarray \<Rightarrow> int list \<Rightarrow> int list \<Rightarrow> ndarray \<Rightarrow> rstate" where
  "initial_state msk radius coord0 nb =
     (let cm = safe_center_of_mass nb radius (shape msk)
      in \<lparr>coord = map real_of_int coord0, rect = slices coord0 radius, neighborhood = nb,
          cm_n = cm,
          cm_i = map2 (+) (map2 (-) cm (map real_of_int radius)) (map real_of_int coord0),
          allow_moves = True\<rparr>)"

text \<open>
  The characterization after the loop: \<open>Rg\<close>, \<open>ecc\<close> and \<open>signal\<close> of one feature.
\<close>

definition characterize_feature ::
  "ext \<Rightarrow> image \<Rightarrow> image \<Rightarrow> ndarray \<Rightarrow> int list \<Rightarrow> rstate \<Rightarrow> real \<Rightarrow> error + fl list" where
  "characterize_feature E raw_image img msk radius st mass =
     (let n = length (shape img); nb = neighborhood st
      in case mask_array (r_squared_mask E) (Tuple radius) n of
           Inl e \<Rightarrow> Inl e
         | Inr r2 \<Rightarrow>
          (case np_mul r2 nb of
             Inl e \<Rightarrow> Inl e
           | Inr weighted \<Rightarrow>
            (let Rg = fl_sqrt (fl_div (Fin (asum weighted)) (Fin mass))
             in case (if n = 2 \<and> radius ! 0 = radius ! 1
                      then (let rad = radius ! 0;
                                cm = \<lparr>shape = mask_shape [rad, rad], item = cosmask E rad\<rparr>;
                                sm = \<lparr>shape = mask_shape [rad, rad], item = sinmask E rad\<rparr>
                            in case np_mul nb cm of
                                 Inl e \<Rightarrow> Inl e
                               | Inr c \<Rightarrow>
                                (case np_mul nb sm of
                                   Inl e \<Rightarrow> Inl e
                                 | Inr s \<Rightarrow>
                                  (case getitem nb [rad, rad] of
                                     Inl e \<Rightarrow> Inl e
                                   | Inr centre \<Rightarrow>
                                      Inr (fl_div (Fin (np_sqrt ((asum c)\<^sup>2 + (asum s)\<^sup>2)))
                                                  (Fin (mass - centre + 1 / 1000000))))))
                      else Inr NaN) of
                  Inl e \<Rightarrow> Inl e
                | Inr ecc \<Rightarrow>
                   (case masked msk raw_image (rect st) of
                      Inl e \<Rightarrow> Inl e
                    | Inr raw_neighborhood \<Rightarrow>
                       (case amax raw_neighborhood of
                          Inl e \<Rightarrow> Inl e
                        | Inr signal \<Rightarrow> Inr [Rg, ecc, Fin signal])))))"

text \<open>One turn of \<open>for feat in range(N)\<close>: the trace of the loop and the row of results.\<close>

definition refine_feature ::
  "ext \<Rightarrow> image \<Rightarrow> image \<Rightarrow> ndarray \<Rightarrow> int list \<Rightarrow> nat \<Rightarrow> bool \<Rightarrow> int list
     \<Rightarrow> error + ((event \<times> (int \<times> int) list) list \<times> fl list)" where
  "refine_feature E raw_image img msk radius max_iterations characterize coord0 =
     (case masked msk img (slices coord0 radius) of
        Inl e \<Rightarrow> Inl e
      | Inr nb0 \<Rightarrow>
         (case refine_loop E img msk radius max_iterations
                 (initial_state msk radius coord0 nb0) of
            Inl e \<Rightarrow> Inl e
          | Inr (evs, st) \<Rightarrow>
             (let final_coords = rev (cm_i st);
                  mass = asum (neighborhood st)
              in if \<not> characterize then Inr (evs, map Fin final_coords @ [Fin mass])
                 else case characterize_feature E raw_image img msk radius st mass of
                        Inl e \<Rightarrow> Inl e
                      | Inr extras \<Rightarrow> Inr (evs, map Fin final_coords @ [Fin mass] @ extras))))"

text \<open>
  \<open>_refine\<close>. A row of \<open>coords\<close> has one entry per image axis; where it has not, numpy
  fails in a broadcast or an assignment further on, and the model raises at once.
\<close>

definition py_refine ::
  "ext \<Rightarrow> image \<Rightarrow> image \<Rightarrow> int list \<Rightarrow> int list list \<Rightarrow> int \<Rightarrow> bool
     \<Rightarrow> error + fl list list" where
  "py_refine E raw_image img radius coords max_iterations characterize =
     (case mask_array (binary_mask E) (Tuple radius) (length (shape img)) of
        Inl e \<Rightarrow> Inl e
      | Inr msk \<Rightarrow>
         if \<not> list_all (\<lambda>c. length c = length (shape img)) coords then Inl ValueError
         else case emap (refine_feature E raw_image img msk radius (nat max_iterations)
                           characterize) coords of
                Inl e \<Rightarrow> Inl e
              | Inr rs \<Rightarrow> Inr (map snd rs))"

subsection \<open>\<open>_numba_refine\<close>: the engine for two dimensions\<close>

text \<open>
  The function is modelled as the Python it is written in (what runs when numba is
  missing or falls back to object mode): reading an array element outside the array
  raises \<open>IndexError\<close>, a negative index counts from the end, and dividing one numpy
  float by another that is zero gives an infinity or NaN. \<open>coords\<close> holds integers, so
  \<open>int(round(coord[dim]))\<close> returns \<open>coord[dim]\<close>.
\<close>

definition GOOD_ENOUGH_THRESH_numba :: real where
  "GOOD_ENOUGH_THRESH_numba = 1 / 100"

text \<open>\<open>np.array(image.shape, dtype=np.int16)\<close>: the extents wrap around at 16 bits.\<close>

definition int16 :: "int \<Rightarrow> int" where
  "int16 n = (n + 32768) mod 65536 - 32768"

text \<open>
  The double loop \<open>for i in range(square_size): for j in range(square_size):
  if mask[i, j] != 0: px = image[square0 + i, square1 + j]\<close>: the indices visited under
  the mask, each with its pixel.
\<close>

fun sweep_from ::
  "ndarray \<Rightarrow> 'a ndarray_scheme \<Rightarrow> int \<times> int \<Rightarrow> int list list \<Rightarrow> error + (int list \<times> real) list" where
  "sweep_from msk img sq [] = Inr []"
| "sweep_from msk img sq (ij # rest) =
     (case getitem msk ij of
        Inl e \<Rightarrow> Inl e
      | Inr m \<Rightarrow>
         if m \<noteq> 0 then
           (case getitem img (map2 (+) [fst sq, snd sq] ij) of
              Inl e \<Rightarrow> Inl e
            | Inr px \<Rightarrow>
               (case sweep_from msk img sq rest of
                  Inl e \<Rightarrow> Inl e
                | Inr ps \<Rightarrow> Inr ((ij, px) # ps)))
         else sweep_from msk img sq rest)"

definition sweep ::
  "ndarray \<Rightarrow> 'a ndarray_scheme \<Rightarrow> int \<times> int \<Rightarrow> int \<Rightarrow> error + (int list \<times> real) list" where
  "sweep msk img sq square_size =
     sweep_from msk img sq (indices [nat square_size, nat square_size])"

text \<open>
  The sums \<open>cm_n[0] += px*i; cm_n[1] += px*j; mass_ += px\<close> followed by
  \<open>cm_n[dim] /= mass_\<close>, which has no guard against \<open>mass_ = 0\<close>.
\<close>

definition numba_center :: "ndarray \<Rightarrow> image \<Rightarrow> int \<times> int \<Rightarrow> int \<Rightarrow> error + fl list" where
  "numba_center msk img sq radius =
     (case sweep msk img sq (2 * radius + 1) of
        Inl e \<Rightarrow> Inl e
      | Inr ps \<Rightarrow>
         (let mass' = sum_list (map snd ps)
          in Inr (map (\<lambda>dim. fl_div (Fin (sum_list (map (\<lambda>(ij, px). px * real_of_int (ij ! dim)) ps)))
                                     (Fin mass'))
                      [0, 1])))"

record nstate =
  n_coord :: "int list"
  n_square :: "int \<times> int"
  n_cm_n :: "fl list"
  n_cm_i :: "fl list"

definition numba_step ::
  "image \<Rightarrow> ndarray \<Rightarrow> int \<Rightarrow> bool \<Rightarrow> nstate \<Rightarrow> error + (event \<times> nstate)" where
  "numba_step img msk radius moves_allowed st =
     (let off_center = map (\<lambda>c. fl_sub c (Fin (real_of_int radius))) (n_cm_n st)
      in if \<not> list_ex (\<lambda>oc. fl_gt (fl_abs oc) (Fin GOOD_ENOUGH_THRESH_numba)) off_center
         then Inr (Converged, st)
         else if moves_allowed \<and> list_ex (\<lambda>oc. fl_gt (fl_abs oc) (Fin SHIFT_THRESH)) off_center
         then
           (let new_coord =
                  map (\<lambda>dim.
                         let c = n_coord st ! dim; oc = off_center ! dim;
                             c1 = (if fl_gt oc (Fin SHIFT_THRESH) then c + 1
                                   else if fl_lt oc (Fin (- SHIFT_THRESH)) then c - 1 else c);
                             c2 = (if c1 < radius then radius else c1);
                             upper_bound = int16 (int (shape img ! dim)) - radius - 1
                         in if c2 > upper_bound then upper_bound else c2)
                      [0, 1];
                sq = (new_coord ! 0 - radius, new_coord ! 1 - radius)
            in case numba_center msk img sq radius of
                 Inl e \<Rightarrow> Inl e
               | Inr cm \<Rightarrow>
                   Inr (Moved,
                        \<lparr>n_coord = new_coord, n_square = sq, n_cm_n = cm,
                         n_cm_i = map (\<lambda>dim. fl_add (fl_sub (cm ! dim) (Fin (real_of_int radius)))
                                                    (Fin (real_of_int (new_coord ! dim))))
                                      [0, 1]\<rparr>))
         else Inr (Stopped, st))"

fun numba_loop ::
  "image \<Rightarrow> ndarray \<Rightarrow> int \<Rightarrow> nat \<Rightarrow> nstate \<Rightarrow> error + (event list \<times> nstate)" where
  "numba_loop img msk radius 0 st = Inr ([], st)"
| "numba_loop img msk radius (Suc k) st =
     (case numba_step img msk radius True st of
        Inl e \<Rightarrow> Inl e
      | Inr (ev, st') \<Rightarrow>
          if ev \<noteq> Moved then Inr ([ev], st')
          else (case numba_loop img msk radius k st' of
                  Inl e \<Rightarrow> Inl e
                | Inr (evs, st'') \<Rightarrow> Inr (ev # evs, st'')))"

text \<open>
  The characterization loop. \<open>signal_\<close> starts at 0 and, whenever the raw pixel exceeds
  it, takes the value of \<open>px\<close>, the pixel of the processed image.
\<close>

fun numba_signal :: "image \<Rightarrow> int \<times> int \<Rightarrow> (int list \<times> real) list \<Rightarrow> real \<Rightarrow> error + real" where
  "numba_signal raw_image sq [] signal' = Inr signal'"
| "numba_signal raw_image sq ((ij, px) # rest) signal' =
     (case getitem raw_image (map2 (+) [fst sq, snd sq] ij) of
        Inl e \<Rightarrow> Inl e
      | Inr raw_px \<Rightarrow>
          numba_signal raw_image sq rest (if raw_px > signal' then px else signal'))"

definition numba_characterize ::
  "ext \<Rightarrow> image \<Rightarrow> image \<Rightarrow> int \<Rightarrow> bool \<Rightarrow> int \<times> int \<Rightarrow> ndarray \<Rightarrow> error + fl list" where
  "numba_characterize E raw_image img radius characterize sq msk =
     (case sweep msk img sq (2 * radius + 1) of
        Inl e \<Rightarrow> Inl e
      | Inr ps \<Rightarrow>
         (let mass' = sum_list (map snd ps)
          in if \<not> characterize then Inr [Fin mass']
             else case numba_signal raw_image sq ps 0 of
               Inl e \<Rightarrow> Inl e
             | Inr signal' \<Rightarrow>
                (let Rg' = sum_list (map (\<lambda>(ij, px). r_squared_mask E [radius, radius] ij * px) ps);
                     ecc1 = sum_list (map (\<lambda>(ij, px). cosmask E radius ij * px) ps);
                     ecc2 = sum_list (map (\<lambda>(ij, px). sinmask E radius ij * px) ps)
                 in if ps = [] then Inl ZeroDivisionError
                    else case getitem img [fst sq + radius, snd sq + radius] of
                      Inl e \<Rightarrow> Inl e
                    | Inr center_px \<Rightarrow>
                        Inr [Fin mass',
                             fl_sqrt (fl_div (Fin Rg') (Fin mass')),
                             fl_div (Fin (np_sqrt (ecc1\<^sup>2 + ecc2\<^sup>2)))
                                    (Fin (mass' - center_px + 1 / 1000000)),
                             Fin signal'])))"

definition numba_feature ::
  "ext \<Rightarrow> image \<Rightarrow> image \<Rightarrow> int \<Rightarrow> nat \<Rightarrow> bool \<Rightarrow> ndarray \<Rightarrow> int list
     \<Rightarrow> error + (event list \<times> fl list)" where
  "numba_feature E raw_image img radius max_iterations characterize msk coord0 =
     (if length coord0 < 2 then Inl IndexError
      else let coord = take 2 coord0;
               sq = (coord ! 0 - radius, coord ! 1 - radius)
           in case numba_center msk img sq radius of
                Inl e \<Rightarrow> Inl e
              | Inr cm \<Rightarrow>
                 (case numba_loop img msk radius max_iterations
                         \<lparr>n_coord = coord, n_square = sq, n_cm_n = cm,
                          n_cm_i = map (\<lambda>dim. fl_add (fl_sub (cm ! dim) (Fin (real_of_int radius)))
                                                     (Fin (real_of_int (coord ! dim))))
                                       [0, 1]\<rparr> of
                    Inl e \<Rightarrow> Inl e
                  | Inr (evs, st) \<Rightarrow>
                     (case numba_characterize E raw_image img radius characterize
                             (n_square st) msk of
                        Inl e \<Rightarrow> Inl e
                      | Inr chars \<Rightarrow> Inr (evs, [n_cm_i st ! 1, n_cm_i st ! 0] @ chars))))"

definition numba_refine ::
  "ext \<Rightarrow> image \<Rightarrow> image \<Rightarrow> int \<Rightarrow> int list list \<Rightarrow> int \<Rightarrow> bool \<Rightarrow> ndarray
     \<Rightarrow> error + fl list list" where
  "numba_refine E raw_image img radius coords max_iterations characterize msk =
     (case emap (numba_feature E raw_image img radius (nat max_iterations) characterize msk)
             coords of
        Inl e \<Rightarrow> Inl e
      | Inr rs \<Rightarrow> Inr (map snd rs))"

subsection \<open>\<open>refine\<close>\<close>

datatype engine = Auto | Python | Numba | OtherEngine

definition all_greater_0 :: "real sot \<Rightarrow> bool" where
  "all_greater_0 separation = list_all (\<lambda>s. s > 0) (as_list separation)"

text \<open>
  The main loop by the engine chosen: the warnings and the array \<open>results\<close> before
  duplicates are eliminated.
\<close>

definition refine_engine ::
  "ext \<Rightarrow> image \<Rightarrow> image \<Rightarrow> int list \<Rightarrow> int list list \<Rightarrow> int \<Rightarrow> engine \<Rightarrow> bool \<Rightarrow> bool
     \<Rightarrow> error + (warning list \<times> fl list list)" where
  "refine_engine E raw_image img radius coords max_iterations engine0 characterize walkthrough =
     (let engine = (if engine0 = Auto then (if NUMBA_AVAILABLE E then Numba else Python)
                    else engine0)
      in if engine = Python then
           (case py_refine E raw_image img radius coords max_iterations characterize of
              Inl e \<Rightarrow> Inl e | Inr results \<Rightarrow> Inr ([], results))
         else if engine = Numba then
           (if length (shape img) \<noteq> 2 then Inl NotImplementedError
            else if radius ! 0 \<noteq> radius ! 1 then Inl NotImplementedError
            else if walkthrough then Inl ValueError
            else case mask_array (binary_mask E) (Scalar (radius ! 0)) (length (shape img)) of
                   Inl e \<Rightarrow> Inl e
                 | Inr msk \<Rightarrow>
                    (case numba_refine E raw_image img (radius ! 0) coords max_iterations
                            characterize msk of
                       Inl e \<Rightarrow> Inl e
                     | Inr results \<Rightarrow>
                         Inr (if \<not> NUMBA_AVAILABLE E then [NumbaMissing] else [], results)))
         else Inl ValueError)"

text \<open>
  \<open>refine\<close>. The duplicates are eliminated under \<open>np.all(np.greater(separation, 0))\<close>;
  there \<open>list(reversed(separation))\<close> needs a sequence (a number raises \<open>TypeError\<close>) and
  the division broadcasts it over the position columns.
\<close>

definition refine ::
  "ext \<Rightarrow> image \<Rightarrow> image \<Rightarrow> int sot \<Rightarrow> int list list \<Rightarrow> real sot \<Rightarrow> int \<Rightarrow> engine
     \<Rightarrow> bool \<Rightarrow> bool \<Rightarrow> error + (warning list \<times> fl list list)" where
  "refine E raw_image img radius0 coords separation max_iterations engine characterize walkthrough =
     (case validate_tuple radius0 (length (shape img)) of
        Inl e \<Rightarrow> Inl e
      | Inr radius \<Rightarrow>
         (case refine_engine E raw_image img radius coords max_iterations engine
                 characterize walkthrough of
            Inl e \<Rightarrow> Inl e
          | Inr (ws, results) \<Rightarrow>
              if all_greater_0 separation then
                (case separation of
                   Scalar s \<Rightarrow> Inl TypeError
                 | Tuple sep \<Rightarrow>
                     if \<not> bc_ok (length (shape img)) (length sep) then Inl ValueError
                     else Inr (ws, eliminate_duplicates (rev sep) (length (shape img)) results))
              else Inr (ws, results)))"

subsection \<open>\<open>locate\<close>\<close>

text \<open>\<open>np.squeeze\<close>: axes of extent 1 are removed.\<close>

fun unsqueeze :: "nat list \<Rightarrow> int list \<Rightarrow> int list" where
  "unsqueeze [] idx = []"
| "unsqueeze (n # ns) idx =
     (if n = 1 then 0 # unsqueeze ns idx
      else case idx of [] \<Rightarrow> [] | i # rest \<Rightarrow> i # unsqueeze ns rest)"

definition squeeze :: "image \<Rightarrow> image" where
  "squeeze a = a\<lparr>shape := filter (\<lambda>n. n \<noteq> 1) (shape a),
                  item := (\<lambda>idx. item a (unsqueeze (shape a) idx))\<rparr>"

text \<open>\<open>str(i)\<close> for the column names \<open>'x' + str(i)\<close>.\<close>

fun str :: "nat \<Rightarrow> string" where
  "str n = (if n < 10 then [char_of (48 + n)]
            else str (n div 10) @ [char_of (48 + n mod 10)])"

declare str.simps [simp del]

definition coord_columns :: "nat \<Rightarrow> string list" where
  "coord_columns n =
     (if n < 4 then take n [''x'', ''y'', ''z'']
      else map (\<lambda>i. ''x'' @ str i) [0..<n])"

text \<open>
  \<open>raw_image ^ max_value\<close> on an integer image and \<open>1 - raw_image\<close> on a floating one.
\<close>

definition invert_image :: "image \<Rightarrow> image" where
  "invert_image raw_image =
     (if is_integer (dtype raw_image)
      then raw_image\<lparr>item := (\<lambda>i. real_of_int (\<lfloor>item raw_image i\<rfloor> XOR iinfo_max (dtype raw_image)))\<rparr>
      else raw_image\<lparr>item := (\<lambda>i. 1 - item raw_image i)\<rparr>)"

text \<open>
  The selection by \<open>topn\<close>. \<open>np.argmax\<close> is the index of the first maximum (of the first
  NaN if there is one). \<open>np.argsort\<close> is numpy's: the model takes the stable ascending
  order with NaN last, which is what numpy's default sort gives on up to 16 entries.
  \<open>a[-topn:]\<close> is Python's slice from \<open>-topn\<close>.
\<close>

definition fl_sort_le :: "fl \<Rightarrow> fl \<Rightarrow> bool" where
  "fl_sort_le a b = (isnan b \<or> (\<not> isnan a \<and> \<not> fl_lt b a))"

fun insert_index :: "fl list \<Rightarrow> nat \<Rightarrow> nat list \<Rightarrow> nat list" where
  "insert_index keys i [] = [i]"
| "insert_index keys i (j # js) =
     (if fl_sort_le (keys ! j) (keys ! i) then j # insert_index keys i js else i # j # js)"

definition argsort :: "fl list \<Rightarrow> nat list" where
  "argsort keys = fold (insert_index keys) [0..<length keys] []"

definition argmax :: "fl list \<Rightarrow> nat" where
  "argmax keys =
     fold (\<lambda>i best. if isnan (keys ! best) then best
                     else if isnan (keys ! i) \<or> fl_lt (keys ! best) (keys ! i) then i
                     else best)
          [1..<length keys] 0"

definition slice_from :: "'a list \<Rightarrow> int \<Rightarrow> 'a list" where
  "slice_from xs start =
     (let n = int (length xs);
          s = (if start < 0 then max 0 (start + n) else min start n)
      in drop (nat s) xs)"

definition select_topn :: "int option \<Rightarrow> fl list \<Rightarrow> fl list list \<Rightarrow> fl list list" where
  "select_topn topn exact_mass refined_coords =
     (case topn of
        None \<Rightarrow> refined_coords
      | Some t \<Rightarrow>
          if int (length refined_coords) > t then
            (if t = 1 then [refined_coords ! argmax exact_mass]
             else slice_from (map (\<lambda>i. refined_coords ! i) (argsort exact_mass)) (- t))
          else refined_coords)"

text \<open>
  The prefilter: \<open>approx_mass > minmass\<close> and, with \<open>maxsize\<close>, \<open>approx_size < maxsize\<close>.
  All masses are estimated before any size.
\<close>

definition prefilter ::
  "ext \<Rightarrow> image \<Rightarrow> int list \<Rightarrow> real \<Rightarrow> real option \<Rightarrow> int list list \<Rightarrow> error + int list list" where
  "prefilter E img radius minmass maxsize coords =
     (case emap (estimate_mass E img radius) coords of
        Inl e \<Rightarrow> Inl e
      | Inr approx_mass \<Rightarrow>
         (case maxsize of
            None \<Rightarrow> Inr (map fst (filter (\<lambda>(c, m). m > minmass) (zip coords approx_mass)))
          | Some mx \<Rightarrow>
             (case emap (\<lambda>(c, m). estimate_size E img radius c m) (zip coords approx_mass) of
                Inl e \<Rightarrow> Inl e
              | Inr approx_size \<Rightarrow>
                  Inr (map fst (filter (\<lambda>(c, m, s). m > minmass \<and> fl_lt s (Fin mx))
                                       (zip coords (zip approx_mass approx_size)))))))"

text \<open>
  The filter on the refined features: \<open>exact_mass > minmass\<close> and, with \<open>maxsize\<close>,
  \<open>exact_size < maxsize\<close>, where the size is the column after the mass; without
  \<open>characterize\<close> there is no such column and numpy raises \<open>IndexError\<close>.
\<close>

definition postfilter ::
  "nat \<Rightarrow> bool \<Rightarrow> real \<Rightarrow> real option \<Rightarrow> fl list list \<Rightarrow> error + fl list list" where
  "postfilter n characterize minmass maxsize refined_coords =
     (case maxsize of
        None \<Rightarrow> Inr (filter (\<lambda>row. fl_gt (row ! n) (Fin minmass)) refined_coords)
      | Some mx \<Rightarrow>
          if \<not> characterize then Inl IndexError
          else Inr (filter (\<lambda>row. fl_gt (row ! n) (Fin minmass) \<and> fl_lt (row ! (n + 1)) (Fin mx))
                           refined_coords))"

text \<open>
  The end of \<open>locate\<close>: the table of the selected rows, with the black level taken off
  the column \<open>signal\<close> (the last of \<open>columns\<close>) and the column \<open>ep\<close> joined on under
  \<open>characterize\<close>, and the column \<open>frame\<close> when the image carries a frame number.
\<close>

definition finish_table ::
  "ext \<Rightarrow> image \<Rightarrow> int list \<Rightarrow> real list \<Rightarrow> real option \<Rightarrow> bool \<Rightarrow> string list
     \<Rightarrow> fl list list \<Rightarrow> error + table" where
  "finish_table E raw_image diameter noise_size threshold characterize cols refined_coords =
     (let signal = length cols - 1;
          f = \<lparr>columns = cols, rows = refined_coords\<rparr>
      in case (if characterize then
                 (let (black_level, noise) = measure_noise E raw_image diameter threshold;
                      f1 = f\<lparr>rows := map (\<lambda>row. row[signal := fl_sub (row ! signal) black_level])
                                          (rows f)\<rparr>
                  in if diameter = [] \<or> noise_size = [] then Inl IndexError
                     else (let ep = static_error E f1 noise (diameter ! 0) (noise_size ! 0)
                           in Inr \<lparr>columns = columns f1 @ [''ep''],
                                   rows = map (\<lambda>(i, row). row @ [if i < length ep then ep ! i else NaN])
                                              (zip [0..<length (rows f1)] (rows f1))\<rparr>))
               else Inr f) of
           Inl e \<Rightarrow> Inl e
         | Inr f2 \<Rightarrow>
            (case frame_no raw_image of
               None \<Rightarrow> Inr f2
             | Some k \<Rightarrow> Inr \<lparr>columns = columns f2 @ [''frame''],
                              rows = map (\<lambda>row. row @ [Fin (real_of_int k)]) (rows f2)\<rparr>))"

text \<open>
  \<open>locate\<close> is given in three parts, in the order of the source: the validation of
  the parameters and their defaults; the detection, the two filters and the refinement,
  up to the rows that survive (\<open>None\<close> where the source returns the empty table early);
  and \<open>locate\<close> itself, with the preprocessing, the column names, the selection by
  \<open>topn\<close> and the table.
\<close>

definition locate_params ::
  "nat \<Rightarrow> int sot \<Rightarrow> int sot option \<Rightarrow> real sot \<Rightarrow> int sot option
     \<Rightarrow> error + (int list \<times> int list \<times> int list \<times> int list \<times> real list)" where
  "locate_params n diameter0 separation0 noise_size0 smoothing_size0 =
     ebind (validate_tuple diameter0 n) (\<lambda>diameter.
       if \<not> list_all (\<lambda>x. x AND 1 \<noteq> 0) diameter then Inl ValueError
       else
         ebind (case separation0 of None \<Rightarrow> Inr (map (\<lambda>x. x + 1) diameter)
                                  | Some s \<Rightarrow> validate_tuple s n) (\<lambda>separation.
         ebind (case smoothing_size0 of None \<Rightarrow> Inr diameter
                                      | Some s \<Rightarrow> validate_tuple s n) (\<lambda>smoothing_size.
         ebind (validate_tuple noise_size0 n) (\<lambda>noise_size.
           Inr (diameter, map (\<lambda>x. x div 2) diameter, separation, smoothing_size,
                noise_size)))))"

definition locate_features ::
  "ext \<Rightarrow> image \<Rightarrow> image \<Rightarrow> int list \<Rightarrow> int list \<Rightarrow> int list \<Rightarrow> real \<Rightarrow> real option
     \<Rightarrow> real \<Rightarrow> int \<Rightarrow> bool \<Rightarrow> bool \<Rightarrow> bool \<Rightarrow> engine
     \<Rightarrow> error + (warning list \<times> fl list list option)" where
  "locate_features E raw_image img radius separation smoothing_size minmass maxsize percentile
       max_iterations filter_before filter_after characterize engine =
     (let margin = map (\<lambda>(rad, sep, sm). max rad (max (sep div 2 - 1) (sm div 2)))
                       (zip radius (zip separation smoothing_size))
      in ebind (local_maxima E img (Tuple radius) percentile (Some (Tuple margin)))
           (\<lambda>(w_maxima, coords0).
         if length coords0 = 0 then Inr (w_maxima, None)
         else
           ebind (if filter_before then prefilter E img radius minmass maxsize coords0
                  else Inr coords0) (\<lambda>coords.
           if length coords = 0 then Inr (w_maxima @ [NoPrefilterSurvivors], None)
           else
             ebind (refine E raw_image img (Tuple radius) coords
                      (Tuple (map real_of_int separation)) max_iterations engine
                      characterize False) (\<lambda>(w_refine, refined0).
             ebind (if filter_after
                    then postfilter (length (shape img)) characterize minmass maxsize refined0
                    else Inr refined0) (\<lambda>refined.
             if length refined = 0
             then Inr (w_maxima @ w_refine @ [NoFilterSurvivors], None)
             else Inr (w_maxima @ w_refine, Some refined))))))"

definition locate ::
  "ext \<Rightarrow> image \<Rightarrow> int sot \<Rightarrow> real \<Rightarrow> real option \<Rightarrow> int sot option \<Rightarrow> real sot
     \<Rightarrow> int sot option \<Rightarrow> real option \<Rightarrow> bool \<Rightarrow> real \<Rightarrow> int option \<Rightarrow> bool \<Rightarrow> int
     \<Rightarrow> bool \<Rightarrow> bool \<Rightarrow> bool \<Rightarrow> engine \<Rightarrow> error + (warning list \<times> table)" where
  "locate E raw_image0 diameter0 minmass maxsize separation0 noise_size0 smoothing_size0
          threshold invert percentile topn preprocess max_iterations filter_before filter_after
          characterize0 engine =
     (let raw_image1 = squeeze raw_image0;
          shp = shape raw_image1
      in ebind (locate_params (length shp) diameter0 separation0 noise_size0 smoothing_size0)
           (\<lambda>(diameter, radius, separation, smoothing_size, noise_size).
         let characterize = (if tl diameter \<noteq> butlast diameter then False else characterize0);
             w_color = (if 3 \<in> set shp \<or> 4 \<in> set shp then [ColorImage] else []);
             raw_image = (if preprocess \<and> invert then invert_image raw_image1 else raw_image1)
         in ebind (if preprocess then bandpass E raw_image noise_size smoothing_size threshold
                   else Inr raw_image) (\<lambda>img0.
            let dt = (if is_integer (dtype raw_image) then dtype raw_image else UInt 8);
                img = scale_to_gamut E img0 dt;
                cols = coord_columns (length (shape img))
                       @ (if characterize then [''mass'', ''size'', ''ecc'', ''signal'']
                          else [''mass'']);
                all_columns = (if characterize then cols @ [''ep''] else cols)
            in ebind (locate_features E raw_image img radius separation smoothing_size minmass
                        maxsize percentile max_iterations filter_before filter_after
                        characterize engine) (\<lambda>(ws, found).
               case found of
                 None \<Rightarrow> Inr (w_color @ ws, \<lparr>columns = all_columns, rows = []\<rparr>)
               | Some refined_coords \<Rightarrow>
                   (let exact_mass = map (\<lambda>row. row ! length (shape img)) refined_coords
                    in ebind (finish_table E raw_image diameter noise_size threshold characterize
                                cols (select_topn topn exact_mass refined_coords))
                         (\<lambda>f. Inr (w_color @ ws, f)))))))"

section \<open>A concrete set of collaborators, for running the model\<close>

text \<open>
  Modelled from the spec: \<open>masks.py\<close> is not among the sources. The spec's data model
  gives, for a radius vector \<open>r\<close>, the entries \<open>M(i) = 1\<close> iff
  \<open>\<Sum> ((i\<^sub>k - r\<^sub>k) / r\<^sub>k)\<^sup>2 \<le> 1\<close>, \<open>R\<^sup>2(i) = \<Sum> (i\<^sub>k - r\<^sub>k)\<^sup>2\<close> restricted to \<open>M\<close>, and
  in two dimensions \<open>C(i) = cos(2 atan2(i\<^sub>1 - r\<^sub>1, i\<^sub>0 - r\<^sub>0))\<close> and \<open>S(i) = sin(\<dots>)\<close> restricted
  to \<open>M\<close>, both 0 at the centre. With \<open>x = i\<^sub>0 - r\<close> and \<open>y = i\<^sub>1 - r\<close> the two angular
  masks are \<open>(x\<^sup>2 - y\<^sup>2) / (x\<^sup>2 + y\<^sup>2)\<close> and \<open>2 x y / (x\<^sup>2 + y\<^sup>2)\<close>.
\<close>

definition in_disk :: "int list \<Rightarrow> int list \<Rightarrow> bool" where
  "in_disk r i =
     (sum_list (map2 (\<lambda>ik rk. ((real_of_int ik - real_of_int rk) / real_of_int rk)\<^sup>2) i r) \<le> 1)"

definition spec_binary_mask :: "int list \<Rightarrow> int list \<Rightarrow> real" where
  "spec_binary_mask r i = (if in_disk r i then 1 else 0)"

definition spec_r_squared_mask :: "int list \<Rightarrow> int list \<Rightarrow> real" where
  "spec_r_squared_mask r i =
     (if in_disk r i
      then sum_list (map2 (\<lambda>ik rk. (real_of_int ik - real_of_int rk)\<^sup>2) i r)
      else 0)"

definition spec_cosmask :: "int \<Rightarrow> int list \<Rightarrow> real" where
  "spec_cosmask r i =
     (let x = real_of_int (i ! 0 - r); y = real_of_int (i ! 1 - r)
      in if in_disk [r, r] i \<and> (x \<noteq> 0 \<or> y \<noteq> 0)
         then (x\<^sup>2 - y\<^sup>2) / (x\<^sup>2 + y\<^sup>2) else 0)"

definition spec_sinmask :: "int \<Rightarrow> int list \<Rightarrow> real" where
  "spec_sinmask r i =
     (let x = real_of_int (i ! 0 - r); y = real_of_int (i ! 1 - r)
      in if in_disk [r, r] i \<and> (x \<noteq> 0 \<or> y \<noteq> 0)
         then 2 * x * y / (x\<^sup>2 + y\<^sup>2) else 0)"

text \<open>
  The remaining collaborators of \<open>demo_ext\<close> are stand-ins that only make examples run:
  the preprocessor passes the image through, the noise is zero, the uncertainty column
  is NaN and the spline shift returns its argument. The general theorems hold for all
  collaborators; the examples are run with this one.
\<close>

definition demo_ext :: ext where
  "demo_ext =
     \<lparr>NUMBA_AVAILABLE = True,
      binary_mask = spec_binary_mask,
      r_squared_mask = spec_r_squared_mask,
      cosmask = spec_cosmask,
      sinmask = spec_sinmask,
      bandpass = (\<lambda>img noise_size smoothing_size threshold. Inr img),
      scale_to_gamut = (\<lambda>img dt. img\<lparr>dtype := dt\<rparr>),
      measure_noise = (\<lambda>img diameter threshold. (Fin 0, Fin 0)),
      static_error = (\<lambda>f noise diameter noise_size. map (\<lambda>r. NaN) (rows f)),
      ndimage_shift = (\<lambda>a d. a)\<rparr>"

text \<open>Images given by their rows.\<close>

definition image2d :: "dtype \<Rightarrow> real list list \<Rightarrow> image" where
  "image2d dt rs =
     \<lparr>shape = [length rs, length (hd rs)],
      item = (\<lambda>i. rs ! nat (i ! 0) ! nat (i ! 1)),
      dtype = dt, frame_no = None\<rparr>"

definition peaks :: image where
  "peaks = image2d (UInt 8)
     [[7, 1, 1, 1, 1],
      [1, 1, 1, 1, 1],
      [1, 1, 9, 1, 1],
      [1, 1, 1, 1, 1],
      [1, 1, 1, 1, 1]]"


text \<open>
  Three rows \<open>[x, y, mass]\<close>: the first two have equal mass and are close together on
  the scale of the separation \<open>(2, 20)\<close> (rows, columns), the third is far away.
\<close>

definition flats :: "fl list list" where
  "flats = [[Fin 10, Fin 0, Fin 7], [Fin 1, Fin 1, Fin 7], [Fin 50, Fin 50, Fin 3]]"

text \<open>
  An image with a bright pixel at \<open>(2, 2)\<close> and a dimmer one beside it, the mask for the
  radius 1 in two dimensions, and an image of zeros.
\<close>

definition walk :: image where
  "walk = image2d (UInt 8)
     [[1, 1, 1, 1, 1],
      [1, 1, 1, 1, 1],
      [1, 1, 40, 10, 1],
      [1, 1, 1, 1, 1],
      [1, 1, 1, 1, 1]]"

definition disk1 :: ndarray where
  "disk1 = \<lparr>shape = mask_shape [1, 1], item = spec_binary_mask [1, 1]\<rparr>"

definition zeros :: image where
  "zeros = image2d (UInt 8)
     [[0, 0, 0, 0, 0],
      [0, 0, 0, 0, 0],
      [0, 0, 0, 0, 0],
      [0, 0, 0, 0, 0],
      [0, 0, 0, 0, 0]]"

text \<open>
  A processed image whose centre pixel is 2 where the raw image \<open>peaks\<close> has 9.
\<close>

definition dimmed :: image where
  "dimmed = image2d (UInt 8)
     [[1, 1, 1, 1, 1],
      [1, 1, 1, 1, 1],
      [1, 1, 2, 1, 1],
      [1, 1, 1, 1, 1],
      [1, 1, 1, 1, 1]]"

text \<open>
  An image with two separate bright pixels, 9 at \<open>(2, 2)\<close> and 8 at \<open>(2, 6)\<close>.
\<close>

definition two_peaks :: image where
  "two_peaks = image2d (UInt 8)
     [[1, 1, 1, 1, 1, 1, 1, 1, 1],
      [1, 1, 1, 1, 1, 1, 1, 1, 1],
      [1, 1, 9, 1, 1, 1, 8, 1, 1],
      [1, 1, 1, 1, 1, 1, 1, 1, 1],
      [1, 1, 1, 1, 1, 1, 1, 1, 1]]"

section \<open>The peak detector\<close>

lemma length_indices: "x \<in> set (indices s) \<Longrightarrow> length x = length s"
  by (induction s arbitrary: x) auto

lemma not_near_edge:
  assumes ne: "\<not> near_edge shp (as_list m) x"
    and lx: "length x = length shp"
    and pa: "per_axis m (length shp)"
    and k: "k < length shp"
  shows "axis_margin m k \<le> x ! k \<and> x ! k \<le> int (shp ! k) - axis_margin m k - 1"
proof -
  have len: "length (as_list m) = 1 \<or> length (as_list m) = length shp"
    using pa by (cases m) (auto simp: per_axis_def)
  then have kk: "k < bc_len (length shp) (length (as_list m))"
    using k by (auto simp: bc_len_def)
  have bm: "bc (as_list m) k = axis_margin m k"
    using pa k by (cases m) (auto simp: bc_def axis_margin_def per_axis_def)
  have bx: "bc x k = x ! k" using lx k by (auto simp: bc_def)
  have bs: "bc shp k = shp ! k" using k by (auto simp: bc_def)
  from ne kk have "\<not> (bc x k < bc (as_list m) k \<or> bc x k > int (bc shp k) - bc (as_list m) k - 1)"
    by (auto simp: near_edge_def list_ex_iff)
  then show ?thesis by (simp add: bm bx bs)
qed

lemma local_maxima_sound:
  assumes "local_maxima E img radius percentile margin0 = Inr (ws, xs)" and "x \<in> set xs"
  shows "x \<in> set (indices (shape img))
     \<and> \<not> near_edge (shape img) (as_list (case margin0 of None \<Rightarrow> radius | Some m \<Rightarrow> m)) x"
  using assms
  by (auto simp: local_maxima_def Let_def split: sum.splits if_splits)

text \<open>
  Claim C4. Whatever the image, radius, percentile and margin, every coordinate that
  \<open>local_maxima\<close> returns keeps the margin on every axis \<open>k\<close>:
  \<open>m\<^sub>k \<le> x\<^sub>k \<le> shape\<^sub>k - m\<^sub>k - 1\<close>. The margin is a number or has one entry per axis, and
  defaults to the radius.
\<close>

theorem local_maxima_respects_margin:
  assumes "local_maxima E img radius percentile margin0 = Inr (ws, xs)"
    and "x \<in> set xs"
    and "per_axis (case margin0 of None \<Rightarrow> radius | Some m \<Rightarrow> m) (length (shape img))"
    and "k < length (shape img)"
  shows "axis_margin (case margin0 of None \<Rightarrow> radius | Some m \<Rightarrow> m) k \<le> x ! k
       \<and> x ! k \<le> int (shape img ! k) - axis_margin (case margin0 of None \<Rightarrow> radius | Some m \<Rightarrow> m) k - 1"
proof -
  from local_maxima_sound[OF assms(1,2)]
  have a: "x \<in> set (indices (shape img))"
    and b: "\<not> near_edge (shape img) (as_list (case margin0 of None \<Rightarrow> radius | Some m \<Rightarrow> m)) x"
    by auto
  show ?thesis
    by (rule not_near_edge[OF b length_indices[OF a] assms(3,4)])
qed

theorem local_maxima_respects_margin_witness:
  "local_maxima demo_ext peaks (Scalar 1) 64 (Some (Tuple [1, 2])) = Inr ([], [[2, 2]])
   \<and> [2, 2] \<in> set [[2, 2 :: int]]
   \<and> per_axis (Tuple [1, 2 :: int]) (length (shape peaks))
   \<and> (1::nat) < length (shape peaks)
   \<and> axis_margin (Tuple [1, 2]) 1 \<le> [2, 2] ! 1
   \<and> [2, 2 :: int] ! 1 \<le> int (shape peaks ! 1) - axis_margin (Tuple [1, 2]) 1 - 1"
proof -
  have e: "local_maxima demo_ext peaks (Scalar 1) 64 (Some (Tuple [1, 2])) = Inr ([], [[2, 2]])"
    by code_simp
  have m: "[2, 2] \<in> set [[2, 2 :: int]]" by simp
  have p: "per_axis (case Some (Tuple [1, 2 :: int]) of None \<Rightarrow> Scalar 1 | Some m \<Rightarrow> m) (length (shape peaks))"
    by (simp add: per_axis_def peaks_def image2d_def)
  have k: "(1::nat) < length (shape peaks)" by (simp add: peaks_def image2d_def)
  from local_maxima_respects_margin[OF e m p k] e m p k show ?thesis by simp
qed




section \<open>The deduplicator\<close>

declare eliminate_duplicates.simps [simp del]

lemma query_pairs_bounds: "p \<in> set (query_pairs ps) \<Longrightarrow> fst p < snd p \<and> snd p < length ps"
  by (auto simp: query_pairs_def)

lemma dimmer_cases: "dimmer positions mass pr = fst pr \<or> dimmer positions mass pr = snd pr"
  by (simp add: dimmer_def Let_def argsort2_first_def argmin2_def)

lemma np_delete_shrinks:
  assumes "d \<in> set to_drop" and "d < length xs"
  shows "length (np_delete xs to_drop) < length xs"
proof -
  have "(d, xs ! d) \<in> set (zip [0..<length xs] xs)"
    using assms(2) by (auto simp: in_set_zip intro!: exI[of _ d])
  then have "\<exists>p \<in> set (zip [0..<length xs] xs). \<not> fst p \<notin> set to_drop"
    using assms(1) by force
  then have "length (filter (\<lambda>p. fst p \<notin> set to_drop) (zip [0..<length xs] xs))
               < length (zip [0..<length xs] xs)"
    by (metis length_filter_less)
  then show ?thesis by (simp add: np_delete_def)
qed

lemma drop_pass_shrinks:
  assumes "duplicates \<noteq> []"
    and "set duplicates \<subseteq> set (find_duplicates rsep n results)"
  shows "length (drop_pass rsep n duplicates results) < length results"
proof -
  define positions where "positions = map (scaled_position rsep n) results"
  define mass where "mass = map (\<lambda>row. row ! n) results"
  from assms(1) obtain pr where pr: "pr \<in> set duplicates" by (cases duplicates) auto
  with assms(2) have "pr \<in> set (query_pairs positions)"
    by (auto simp: find_duplicates_def positions_def)
  from query_pairs_bounds[OF this] have "fst pr < length results" "snd pr < length results"
    by (auto simp: positions_def)
  with dimmer_cases[of positions mass pr] have "dimmer positions mass pr < length results"
    by auto
  moreover have "dimmer positions mass pr \<in> set (map (dimmer positions mass) duplicates)"
    using pr by simp
  ultimately show ?thesis
    unfolding drop_pass_def Let_def positions_def[symmetric] mass_def[symmetric]
    by (rule np_delete_shrinks[rotated])
qed

lemma eliminate_duplicates_no_pairs:
  "find_duplicates rsep n (eliminate_duplicates rsep n results) = []"
proof (induction rsep n results rule: eliminate_duplicates.induct)
  case (1 rsep n results)
  show ?case
  proof (cases "find_duplicates rsep n results = []")
    case True
    then show ?thesis by (simp add: eliminate_duplicates.simps)
  next
    case False
    with "1.IH"[OF refl] show ?thesis
      by (subst eliminate_duplicates.simps) (simp add: Let_def)
  qed
qed

text \<open>
  Claim C6. The loop that eliminates duplicates terminates, for every list of refined
  features and every separation: \<open>eliminate_duplicates\<close> is a total function whose
  recursion descends along the number of rows, its result has no pair left, and every
  pass that finds a pair returns strictly fewer rows than it was given.
\<close>

theorem eliminate_duplicates_terminates:
  "find_duplicates rsep n (eliminate_duplicates rsep n results) = []
   \<and> (find_duplicates rsep n results \<noteq> [] \<longrightarrow>
        length (drop_pass rsep n (find_duplicates rsep n results) results) < length results)"
  using eliminate_duplicates_no_pairs drop_pass_shrinks by blast

theorem eliminate_duplicates_terminates_witness:
  "find_duplicates [20, 2] 2 flats \<noteq> []
   \<and> length (drop_pass [20, 2] 2 (find_duplicates [20, 2] 2 flats) flats) < length flats
   \<and> find_duplicates [20, 2] 2 (eliminate_duplicates [20, 2] 2 flats) = []
   \<and> eliminate_duplicates [20, 2] 2 flats = tl flats"
proof -
  have a: "find_duplicates [20, 2] 2 flats \<noteq> []" by code_simp
  have b: "eliminate_duplicates [20, 2] 2 flats = tl flats" by code_simp
  from eliminate_duplicates_terminates[of "[20, 2]" 2 flats] a b show ?thesis by simp
qed














section \<open>The refiner\<close>

subsection \<open>The two regimes of the loop\<close>

lemma refine_step_frozen:
  assumes "refine_step E img msk radius st = Inr (ev, st')" and "\<not> allow_moves st"
  shows "ev \<noteq> Moved \<and> rect st' = rect st \<and> \<not> allow_moves st'"
  using assms by (auto simp: refine_step_def Let_def split: if_splits sum.splits)

lemma refine_step_interpolated:
  assumes "refine_step E img msk radius st = Inr (Interpolated, st')"
  shows "rect st' = rect st \<and> \<not> allow_moves st'"
  using assms by (auto simp: refine_step_def Let_def split: if_splits sum.splits)

lemma refine_loop_frozen:
  assumes "refine_loop E img msk radius k st = Inr (evs, st')" and "\<not> allow_moves st"
  shows "\<forall>e \<in> set evs. fst e \<noteq> Moved \<and> snd e = rect st"
  using assms
proof (induction k arbitrary: st evs)
  case 0
  then show ?case by simp
next
  case (Suc k)
  from Suc.prems(1) obtain ev st1 where s: "refine_step E img msk radius st = Inr (ev, st1)"
    by (auto split: sum.splits)
  from refine_step_frozen[OF s Suc.prems(2)]
  have f: "ev \<noteq> Moved" "rect st1 = rect st" "\<not> allow_moves st1" by auto
  show ?case
  proof (cases "ev = Converged")
    case True
    with Suc.prems(1) s f show ?thesis by auto
  next
    case False
    with Suc.prems(1) s obtain evs' where
      l: "refine_loop E img msk radius k st1 = Inr (evs', st')" and e: "evs = (ev, rect st1) # evs'"
      by (auto split: sum.splits)
    from Suc.IH[OF l f(3)] f e show ?thesis by auto
  qed
qed

lemma refine_loop_no_move_after_interpolation:
  assumes "refine_loop E img msk radius k st = Inr (evs, st')"
    and "i < j" and "j < length evs" and "fst (evs ! i) = Interpolated"
  shows "fst (evs ! j) \<noteq> Moved \<and> snd (evs ! j) = snd (evs ! i)"
  using assms
proof (induction k arbitrary: st evs i j)
  case 0
  then show ?case by simp
next
  case (Suc k)
  from Suc.prems(1) obtain ev st1 where s: "refine_step E img msk radius st = Inr (ev, st1)"
    by (auto split: sum.splits)
  have nc: "ev \<noteq> Converged"
  proof
    assume "ev = Converged"
    with Suc.prems(1) s have "length evs = 1" by auto
    with Suc.prems(2,3) show False by simp
  qed
  with Suc.prems(1) s obtain evs' where
    l: "refine_loop E img msk radius k st1 = Inr (evs', st')" and e: "evs = (ev, rect st1) # evs'"
    by (auto split: sum.splits)
  from Suc.prems(2) obtain j' where j: "j = Suc j'" by (cases j) auto
  with Suc.prems(3) e have j': "j' < length evs'" by simp
  show ?case
  proof (cases i)
    case 0
    with Suc.prems(4) e have "ev = Interpolated" by simp
    with s refine_step_interpolated have "\<not> allow_moves st1" by blast
    from refine_loop_frozen[OF l this] j' have "fst (evs' ! j') \<noteq> Moved \<and> snd (evs' ! j') = rect st1"
      by auto
    with 0 e j show ?thesis by simp
  next
    case (Suc i')
    with Suc.prems(2,4) e j have "i' < j'" "fst (evs' ! i') = Interpolated" by auto
    from Suc.IH[OF l this(1) j' this(2)] e j Suc show ?thesis by simp
  qed
qed

lemma numba_never_interpolates:
  assumes "numba_loop img msk radius k st = Inr (evs, st')"
  shows "Interpolated \<notin> set evs"
  using assms
proof (induction k arbitrary: st evs)
  case 0
  then show ?case by simp
next
  case (Suc k)
  from Suc.prems obtain ev st1 where s: "numba_step img msk radius True st = Inr (ev, st1)"
    by (auto split: sum.splits)
  then have "ev \<noteq> Interpolated"
    by (auto simp: numba_step_def Let_def split: if_splits sum.splits)
  with Suc s show ?case by (auto split: sum.splits if_splits)
qed

text \<open>
  Claim C3. In the loop of \<open>_refine\<close> for one candidate, once an iteration has taken the
  interpolation branch, no later iteration takes the whole-pixel branch, and the slice
  at the integer anchor stays what it was: \<open>allow_moves\<close> is false from then on.
  (\<open>_numba_refine\<close> never interpolates: \<open>numba_never_interpolates\<close>.)
\<close>

theorem no_move_after_interpolation:
  assumes "refine_feature E raw_image img msk radius k characterize coord0 = Inr (evs, row)"
    and "i < j" and "j < length evs" and "fst (evs ! i) = Interpolated"
  shows "fst (evs ! j) \<noteq> Moved \<and> snd (evs ! j) = snd (evs ! i)"
proof -
  from assms(1) obtain nb0 st where
    "refine_loop E img msk radius k (initial_state msk radius coord0 nb0) = Inr (evs, st)"
    by (auto simp: refine_feature_def Let_def split: sum.splits if_splits)
  from refine_loop_no_move_after_interpolation[OF this assms(2,3,4)] show ?thesis .
qed

theorem no_move_after_interpolation_witness:
  "refine_feature demo_ext walk walk disk1 [1, 1] 3 False [2, 1]
     = Inr ([(Moved, [(1, 4), (1, 4)]), (Interpolated, [(1, 4), (1, 4)]),
             (Interpolated, [(1, 4), (1, 4)])],
            [Fin (133 / 53), Fin 2, Fin 53])
   \<and> fst ([(Moved, [(1, 4), (1, 4 :: int)]), (Interpolated, [(1, 4), (1, 4)]),
             (Interpolated, [(1, 4), (1, 4)])] ! 1) = Interpolated
   \<and> fst ([(Moved, [(1, 4), (1, 4 :: int)]), (Interpolated, [(1, 4), (1, 4)]),
             (Interpolated, [(1, 4), (1, 4)])] ! 2) \<noteq> Moved"
proof -
  have tr: "refine_feature demo_ext walk walk disk1 [1, 1] 3 False [2, 1]
     = Inr ([(Moved, [(1, 4), (1, 4)]), (Interpolated, [(1, 4), (1, 4)]),
             (Interpolated, [(1, 4), (1, 4)])],
            [Fin (133 / 53), Fin 2, Fin 53])"
    by code_simp
  from no_move_after_interpolation[OF tr, of 1 2] tr show ?thesis by simp
qed

subsection \<open>When duplicates are eliminated\<close>

text \<open>
  Claim C10. \<open>refine\<close> eliminates duplicates only when every component of
  \<open>separation\<close> is strictly positive. Otherwise, as with the default \<open>separation = 0\<close>,
  it returns what the engine computed, so features may lie arbitrarily close together
  (the example keeps two features at the same position). With a sequence of positive
  components that broadcasts over the position columns, the result is that of the
  elimination loop.
\<close>

theorem refine_separation_gate:
  "(\<not> all_greater_0 separation \<longrightarrow>
      refine E raw_image img radius0 coords separation max_iterations engine characterize walkthrough
      = (case validate_tuple radius0 (length (shape img)) of
           Inl e \<Rightarrow> Inl e
         | Inr radius \<Rightarrow> refine_engine E raw_image img radius coords max_iterations engine
                            characterize walkthrough))
   \<and> (\<forall>radius ws results sep.
        all_greater_0 separation \<and> separation = Tuple sep
        \<and> bc_ok (length (shape img)) (length sep)
        \<and> validate_tuple radius0 (length (shape img)) = Inr radius
        \<and> refine_engine E raw_image img radius coords max_iterations engine
             characterize walkthrough = Inr (ws, results)
        \<longrightarrow> refine E raw_image img radius0 coords separation max_iterations engine characterize walkthrough
            = Inr (ws, eliminate_duplicates (rev sep) (length (shape img)) results))"
  by (auto simp: refine_def split: sum.splits sot.splits)

theorem refine_separation_gate_witness:
  "\<not> all_greater_0 (Scalar 0)
   \<and> refine demo_ext peaks peaks (Scalar 1) [[2, 2], [2, 2]] (Scalar 0) 10 Python False False
       = Inr ([], [[Fin 2, Fin 2, Fin 13], [Fin 2, Fin 2, Fin 13]])
   \<and> all_greater_0 (Tuple [2, 2])
   \<and> refine demo_ext peaks peaks (Scalar 1) [[2, 2], [2, 2]] (Tuple [2, 2]) 10 Python False False
       = Inr ([], [[Fin 2, Fin 2, Fin 13]])"
proof -
  have n: "\<not> all_greater_0 (Scalar 0)" and p: "all_greater_0 (Tuple [2, 2])"
    by (simp_all add: all_greater_0_def)
  have v: "validate_tuple (Scalar 1) (length (shape peaks)) = Inr [1, 1 :: int]"
    by code_simp
  have b: "bc_ok (length (shape peaks)) (length [2, 2 :: real])" by code_simp
  have c: "refine_engine demo_ext peaks peaks [1, 1] [[2, 2], [2, 2]] 10 Python False False
     = Inr ([], [[Fin 2, Fin 2, Fin 13], [Fin 2, Fin 2, Fin 13]])"
    by code_simp
  have d: "eliminate_duplicates (rev [2, 2]) (length (shape peaks))
             [[Fin 2, Fin 2, Fin 13], [Fin 2, Fin 2, Fin 13]] = [[Fin 2, Fin 2, Fin 13]]"
    by code_simp
  note g1 = refine_separation_gate[of "Scalar 0" demo_ext peaks peaks "Scalar 1"
      "[[2, 2], [2, 2]]" 10 Python False False]
  note g2 = refine_separation_gate[of "Tuple [2, 2]" demo_ext peaks peaks "Scalar 1"
      "[[2, 2], [2, 2]]" 10 Python False False]
  from g1 n v c have r1: "refine demo_ext peaks peaks (Scalar 1) [[2, 2], [2, 2]] (Scalar 0) 10
      Python False False = Inr ([], [[Fin 2, Fin 2, Fin 13], [Fin 2, Fin 2, Fin 13]])"
    by simp
  from g2 p b v c have "refine demo_ext peaks peaks (Scalar 1) [[2, 2], [2, 2]] (Tuple [2, 2]) 10
      Python False False
      = Inr ([], eliminate_duplicates (rev [2, 2]) (length (shape peaks))
                   [[Fin 2, Fin 2, Fin 13], [Fin 2, Fin 2, Fin 13]])"
    by blast
  with d have r2: "refine demo_ext peaks peaks (Scalar 1) [[2, 2], [2, 2]] (Tuple [2, 2]) 10
      Python False False = Inr ([], [[Fin 2, Fin 2, Fin 13]])"
    by simp
  from n p r1 r2 show ?thesis by simp
qed

subsection \<open>A neighbourhood of mass zero\<close>

text \<open>
  In \<open>_refine\<close> a neighbourhood that sums to zero puts the centroid at the mask centre:
  the loop converges at once (or does not run), the position is the candidate and the
  mass is 0.
\<close>

lemma map2_minus_self: "map2 (-) (map f r) (map f r) = map (\<lambda>x. 0 :: real) r"
  by (induction r) auto

lemma map2_plus_zeros:
  "length r = length c \<Longrightarrow> map2 (+) (map (\<lambda>x. 0 :: real) r) c = c"
  by (induction r c rule: list_induct2) auto

lemma initial_state_zero_mass:
  assumes "asum nb0 = 0" and "length coord0 = length radius"
  shows "cm_n (initial_state msk radius coord0 nb0) = map real_of_int radius"
    and "cm_i (initial_state msk radius coord0 nb0) = map real_of_int coord0"
    and "neighborhood (initial_state msk radius coord0 nb0) = nb0"
    and "rect (initial_state msk radius coord0 nb0) = slices coord0 radius"
  using assms
  by (simp_all add: initial_state_def safe_center_of_mass_def Let_def map2_minus_self
      map2_plus_zeros)

lemma refine_step_centred:
  assumes "cm_n st = map real_of_int radius"
  shows "refine_step E img msk radius st = Inr (Converged, st)"
  using assms
  by (simp add: refine_step_def Let_def map2_minus_self list_all_iff GOOD_ENOUGH_THRESH_def)

lemma refine_loop_centred:
  assumes "cm_n st = map real_of_int radius"
  shows "refine_loop E img msk radius k st
         = Inr (if k = 0 then [] else [(Converged, rect st)], st)"
  using assms by (cases k) (simp_all add: refine_step_centred)

lemma py_zero_mass:
  assumes "masked msk img (slices coord0 radius) = Inr nb0"
    and "asum nb0 = 0" and "length coord0 = length radius"
  shows "refine_feature E raw_image img msk radius k False coord0
         = Inr (if k = 0 then [] else [(Converged, slices coord0 radius)],
                map Fin (rev (map real_of_int coord0)) @ [Fin 0])"
  using assms initial_state_zero_mass[OF assms(2,3), of msk]
  by (simp add: refine_feature_def refine_loop_centred Let_def)

text \<open>
  Claim C1 asks the same of both engines. \<open>_numba_refine\<close> divides \<open>cm_n\<close> by the mass
  without the guard of \<open>_safe_center_of_mass\<close>: on an image of zeros, with the radius 1
  and the candidate \<open>(2, 2)\<close>, the neighbourhood sums to zero, the numba engine reports
  the position \<open>(NaN, NaN)\<close> and the Python engine \<open>(2, 2)\<close>, both with mass 0.
\<close>

theorem numba_zero_mass_is_nan:
  "ebind (masked disk1 zeros (slices [2, 2] [1, 1])) (\<lambda>nb. Inr (asum nb)) = Inr 0
   \<and> refine demo_ext zeros zeros (Scalar 1) [[2, 2]] (Scalar 0) 10 Numba False False
       = Inr ([], [[NaN, NaN, Fin 0]])
   \<and> refine demo_ext zeros zeros (Scalar 1) [[2, 2]] (Scalar 0) 10 Python False False
       = Inr ([], [[Fin 2, Fin 2, Fin 0]])"
  by code_simp

subsection \<open>The signal\<close>

text \<open>
  Claim C2 says that with \<open>characterize\<close> the signal is the maximum of the raw image
  under the mask at the final anchor, for both engines. \<open>_refine\<close> computes
  \<open>(mask * raw_image[rect]).max()\<close>; \<open>_numba_refine\<close> compares the raw pixel with the
  running value but stores the pixel of the processed image. With the raw image
  \<open>peaks\<close> (9 at the centre) and the processed image \<open>dimmed\<close> (2 at the centre), the
  numba engine reports the signal 2, the Python engine 9, and the maximum of the raw
  image under the mask is 9.
\<close>

theorem numba_signal_is_processed_pixel:
  "(case refine demo_ext peaks dimmed (Scalar 1) [[2, 2]] (Scalar 0) 10 Numba True False of
        Inl e \<Rightarrow> [] | Inr (ws, results) \<Rightarrow> map (\<lambda>row. row ! 5) results) = [Fin 2]
   \<and> (case refine demo_ext peaks dimmed (Scalar 1) [[2, 2]] (Scalar 0) 10 Python True False of
        Inl e \<Rightarrow> [] | Inr (ws, results) \<Rightarrow> map (\<lambda>row. row ! 5) results) = [Fin 9]
   \<and> ebind (masked disk1 peaks (slices [2, 2] [1, 1])) amax = Inr 9"
  by code_simp

section \<open>\<open>locate\<close>: the selection by \<open>topn\<close> and the empty table\<close>

lemma length_insert_index: "length (insert_index keys i js) = Suc (length js)"
  by (induction js) auto

lemma length_fold_insert_index:
  "length (fold (insert_index keys) is js) = length is + length js"
  by (induction "is" arbitrary: js) (auto simp: length_insert_index)

lemma length_argsort: "length (argsort keys) = length keys"
  by (simp add: argsort_def length_fold_insert_index)

text \<open>
  With at most \<open>topn\<close> rows all are kept; with more rows and \<open>topn \<ge> 1\<close> exactly \<open>topn\<close>
  rows are kept.
\<close>

lemma select_topn_keeps_all:
  "int (length refined_coords) \<le> t \<Longrightarrow> select_topn (Some t) exact_mass refined_coords = refined_coords"
  by (simp add: select_topn_def)

lemma select_topn_length:
  assumes "1 \<le> t" and "t < int (length refined_coords)"
    and "length exact_mass = length refined_coords"
  shows "int (length (select_topn (Some t) exact_mass refined_coords)) = t"
  using assms by (auto simp: select_topn_def slice_from_def Let_def length_argsort)

text \<open>
  With more rows than \<open>topn \<ge> 2\<close> the rows kept are the last \<open>topn\<close> in ascending order
  of mass, so no row that is dropped is brighter than a row that is kept; with
  \<open>topn = 1\<close> the row kept is the first of maximal mass.
\<close>

lemma fl_sort_le_total: "fl_sort_le a b \<or> fl_sort_le b a"
  by (cases a; cases b) (auto simp: fl_sort_le_def)

lemma fl_sort_le_trans: "fl_sort_le a b \<Longrightarrow> fl_sort_le b c \<Longrightarrow> fl_sort_le a c"
  by (cases a; cases b; cases c) (auto simp: fl_sort_le_def)

lemma set_insert_index: "set (insert_index keys i js) = insert i (set js)"
  by (induction js) auto

lemma sorted_insert_index:
  assumes "sorted_wrt (\<lambda>a b. fl_sort_le (keys ! a) (keys ! b)) js"
  shows "sorted_wrt (\<lambda>a b. fl_sort_le (keys ! a) (keys ! b)) (insert_index keys i js)"
  using assms
proof (induction js)
  case Nil
  then show ?case by simp
next
  case (Cons j js)
  show ?case
  proof (cases "fl_sort_le (keys ! j) (keys ! i)")
    case True
    with Cons show ?thesis by (auto simp: set_insert_index)
  next
    case False
    then have ij: "fl_sort_le (keys ! i) (keys ! j)" using fl_sort_le_total by blast
    with Cons.prems False show ?thesis by (auto intro: fl_sort_le_trans)
  qed
qed

lemma fold_insert_index:
  "sorted_wrt (\<lambda>a b. fl_sort_le (keys ! a) (keys ! b)) js \<Longrightarrow>
   sorted_wrt (\<lambda>a b. fl_sort_le (keys ! a) (keys ! b)) (fold (insert_index keys) is js)
   \<and> set (fold (insert_index keys) is js) = set is \<union> set js"
  by (induction "is" arbitrary: js) (auto simp: sorted_insert_index set_insert_index)

lemma argsort_sorted:
  "sorted_wrt (\<lambda>a b. fl_sort_le (keys ! a) (keys ! b)) (argsort keys)"
  and argsort_set: "set (argsort keys) = {0..<length keys}"
  using fold_insert_index[of keys "[]" "[0..<length keys]"] by (auto simp: argsort_def)

lemma sorted_wrt_take_drop:
  assumes "sorted_wrt P xs" and "a \<in> set (take k xs)" and "b \<in> set (drop k xs)"
  shows "P a b"
proof -
  have "sorted_wrt P (take k xs @ drop k xs)" using assms(1) by simp
  then show ?thesis using assms(2,3) unfolding sorted_wrt_append by blast
qed

lemma select_topn_brightest:
  assumes "2 \<le> t" and "t < int (length refined_coords)"
    and "length exact_mass = length refined_coords"
  shows "select_topn (Some t) exact_mass refined_coords
           = map (\<lambda>i. refined_coords ! i) (drop (length exact_mass - nat t) (argsort exact_mass))"
    and "\<forall>a \<in> set (take (length exact_mass - nat t) (argsort exact_mass)).
         \<forall>b \<in> set (drop (length exact_mass - nat t) (argsort exact_mass)).
           fl_sort_le (exact_mass ! a) (exact_mass ! b)"
proof -
  have "nat (int (length refined_coords) - t) = length exact_mass - nat t"
    using assms by simp
  then show "select_topn (Some t) exact_mass refined_coords
           = map (\<lambda>i. refined_coords ! i) (drop (length exact_mass - nat t) (argsort exact_mass))"
    using assms by (simp add: select_topn_def slice_from_def Let_def length_argsort drop_map)
  show "\<forall>a \<in> set (take (length exact_mass - nat t) (argsort exact_mass)).
         \<forall>b \<in> set (drop (length exact_mass - nat t) (argsort exact_mass)).
           fl_sort_le (exact_mass ! a) (exact_mass ! b)"
    using sorted_wrt_take_drop[OF argsort_sorted] by blast
qed

lemma argmax_fold:
  "best < n \<Longrightarrow> (\<forall>i < k. fl_sort_le (keys ! i) (keys ! best)) \<Longrightarrow> k \<le> n \<Longrightarrow>
   (let r = fold (\<lambda>i best. if isnan (keys ! best) then best
                     else if isnan (keys ! i) \<or> fl_lt (keys ! best) (keys ! i) then i
                     else best) [k..<n] best
    in r < n \<and> (\<forall>i < n. fl_sort_le (keys ! i) (keys ! r)))"
proof (induction "n - k" arbitrary: k best)
  case 0
  then show ?case by simp
next
  case (Suc d)
  then have kn: "k < n" by simp
  define best' where "best' = (if isnan (keys ! best) then best
                     else if isnan (keys ! k) \<or> fl_lt (keys ! best) (keys ! k) then k
                     else best)"
  have b: "best' < n" using Suc.prems(1) kn by (simp add: best'_def)
  have le: "fl_sort_le (keys ! best) (keys ! best') \<and> fl_sort_le (keys ! k) (keys ! best')"
    by (cases "keys ! best"; cases "keys ! k") (auto simp: best'_def fl_sort_le_def)
  have all: "\<forall>i < Suc k. fl_sort_le (keys ! i) (keys ! best')"
    using Suc.prems(2) le by (auto simp: less_Suc_eq intro: fl_sort_le_trans)
  have d: "d = n - Suc k" using Suc.hyps(2) by simp
  from Suc.hyps(1)[OF d b all] kn
  show ?case by (simp add: upt_conv_Cons best'_def Let_def)
qed

lemma argmax_is_max:
  assumes "0 < length keys"
  shows "argmax keys < length keys \<and> (\<forall>i < length keys. fl_sort_le (keys ! i) (keys ! argmax keys))"
proof -
  have z: "\<forall>i < 1. fl_sort_le (keys ! i) (keys ! 0)"
    by (cases "keys ! 0") (auto simp: fl_sort_le_def)
  from argmax_fold[OF assms z] assms show ?thesis
    by (simp add: argmax_def Let_def)
qed

text \<open>
  Claim C7 says that with more surviving features than \<open>topn\<close> exactly the \<open>topn\<close>
  brightest are kept. For \<open>topn = 0\<close> the code takes \<open>refined_coords[...][-0:]\<close>, which is
  the whole array: on \<open>two_peaks\<close> both features are kept (in ascending order of mass),
  where \<open>topn = 1\<close> keeps the brighter one and no \<open>topn\<close> keeps both in input order.
\<close>

theorem topn_zero_keeps_all:
  "locate demo_ext two_peaks (Scalar 3) 1 None (Some (Tuple [2, 2])) (Scalar 1) None None
     False 64 (Some 0) False 10 True True False Python
   = Inr ([], \<lparr>columns = [''x'', ''y'', ''mass''],
               rows = [[Fin 6, Fin 2, Fin 12], [Fin 2, Fin 2, Fin 13]]\<rparr>)
   \<and> locate demo_ext two_peaks (Scalar 3) 1 None (Some (Tuple [2, 2])) (Scalar 1) None None
     False 64 (Some 1) False 10 True True False Python
   = Inr ([], \<lparr>columns = [''x'', ''y'', ''mass''], rows = [[Fin 2, Fin 2, Fin 13]]\<rparr>)
   \<and> locate demo_ext two_peaks (Scalar 3) 1 None (Some (Tuple [2, 2])) (Scalar 1) None None
     False 64 None False 10 True True False Python
   = Inr ([], \<lparr>columns = [''x'', ''y'', ''mass''],
               rows = [[Fin 2, Fin 2, Fin 13], [Fin 6, Fin 2, Fin 12]]\<rparr>)"
  by code_simp

text \<open>
  Whenever \<open>locate\<close> (without \<open>topn\<close>) returns a table with no rows, it has come through
  one of the three early returns: it has warned, and the table has the columns
  \<open>all_columns\<close>, with \<open>ep\<close> beside \<open>size\<close>, and no column \<open>frame\<close>, whatever the image
  carries.
\<close>

lemma local_maxima_empty_warns:
  assumes "local_maxima E img radius percentile margin0 = Inr (ws, [])"
  shows "ws \<noteq> []"
  using assms
  by (auto simp: local_maxima_def Let_def split: sum.splits if_splits)

lemma locate_features_none:
  assumes "locate_features E raw_image img radius separation smoothing_size minmass maxsize
             percentile max_iterations filter_before filter_after characterize engine
           = Inr (ws, found)"
  shows "(found = None \<longrightarrow> ws \<noteq> []) \<and> (\<forall>refined. found = Some refined \<longrightarrow> refined \<noteq> [])"
proof -
  let ?margin = "map (\<lambda>(rad, sep, sm). max rad (max (sep div 2 - 1) (sm div 2)))
                       (zip radius (zip separation smoothing_size))"
  from assms obtain w_maxima coords0 where
    lm: "local_maxima E img (Tuple radius) percentile (Some (Tuple ?margin)) = Inr (w_maxima, coords0)"
    by (auto simp: locate_features_def ebind_def Let_def split: sum.splits)
  show ?thesis
  proof (cases "coords0 = []")
    case True
    with lm assms local_maxima_empty_warns[of E img "Tuple radius" percentile "Some (Tuple ?margin)" w_maxima]
    show ?thesis by (auto simp: locate_features_def ebind_def Let_def)
  next
    case False
    with lm assms show ?thesis
      by (auto simp: locate_features_def ebind_def Let_def split: sum.splits if_splits prod.splits)
  qed
qed

lemma frame_not_coord_column: "''frame'' \<notin> set (coord_columns n)"
  by (auto simp: coord_columns_def dest: in_set_takeD)

lemma size_not_coord_column: "''size'' \<notin> set (coord_columns n)"
  by (auto simp: coord_columns_def dest: in_set_takeD)

lemma finish_table_rows:
  "finish_table E raw_image diameter noise_size threshold characterize cols refined = Inr f
   \<Longrightarrow> length (rows f) = length refined"
  by (auto simp: finish_table_def Let_def split: if_splits sum.splits option.splits prod.splits)

lemma select_topn_None: "select_topn None m r = r"
  by (simp add: select_topn_def)

lemma locate_empty_table:
  assumes "locate E raw_image0 diameter0 minmass maxsize separation0 noise_size0 smoothing_size0
             threshold invert percentile None preprocess max_iterations filter_before
             filter_after characterize0 engine = Inr (ws, t)"
    and "rows t = []"
  shows "ws \<noteq> [] \<and> ''frame'' \<notin> set (columns t) \<and> ''mass'' \<in> set (columns t)
       \<and> (''size'' \<in> set (columns t) \<longrightarrow> ''ep'' \<in> set (columns t))"
proof -
  from assms(1) obtain diameter radius separation smoothing_size noise_size where
    p: "locate_params (length (shape (squeeze raw_image0))) diameter0 separation0 noise_size0
          smoothing_size0 = Inr (diameter, radius, separation, smoothing_size, noise_size)"
    by (auto simp: locate_def ebind_def Let_def split: sum.splits)
  let ?characterize = "(if tl diameter \<noteq> butlast diameter then False else characterize0)"
  let ?raw = "(if preprocess \<and> invert then invert_image (squeeze raw_image0) else squeeze raw_image0)"
  from assms(1) p obtain img0 where
    b: "(if preprocess then bandpass E ?raw noise_size smoothing_size threshold
         else Inr ?raw) = Inr img0"
    by (simp add: locate_def ebind_def Let_def split: sum.splits)
  let ?img = "scale_to_gamut E img0 (if is_integer (dtype ?raw) then dtype ?raw else UInt 8)"
  let ?cols = "coord_columns (length (shape ?img))
                       @ (if ?characterize then [''mass'', ''size'', ''ecc'', ''signal'']
                          else [''mass''])"
  from assms(1) p b obtain ws' found where
    f: "locate_features E ?raw ?img radius separation smoothing_size minmass maxsize
          percentile max_iterations filter_before filter_after ?characterize engine
        = Inr (ws', found)"
    by (simp add: locate_def ebind_def Let_def split: sum.splits prod.splits)
  note fn = locate_features_none[OF f]
  show ?thesis
  proof (cases found)
    case None
    with assms(1) p b f have
      "ws = (if 3 \<in> set (shape (squeeze raw_image0)) \<or> 4 \<in> set (shape (squeeze raw_image0))
             then [ColorImage] else []) @ ws'"
      "t = \<lparr>columns = (if ?characterize then ?cols @ [''ep''] else ?cols), rows = []\<rparr>"
      by (simp_all add: locate_def ebind_def Let_def)
    with fn None frame_not_coord_column[of "length (shape ?img)"]
      size_not_coord_column[of "length (shape ?img)"] show ?thesis
      by (auto split: if_splits)
  next
    case (Some refined)
    with fn have ne: "refined \<noteq> []" by simp
    from assms(1) p b f Some obtain tb where
      "finish_table E ?raw diameter noise_size threshold ?characterize ?cols refined = Inr tb"
      "t = tb"
      by (simp add: locate_def ebind_def Let_def select_topn_None split: sum.splits)
    with finish_table_rows ne assms(2) show ?thesis by fastforce
  qed
qed

text \<open>
  Claim C9 says that under every diagnostic condition \<open>locate\<close> returns an empty table
  with the full column schema, with \<open>ep\<close> under \<open>characterize\<close> and with \<open>frame\<close> when the
  image carries a frame number. The early returns give \<open>DataFrame(columns=all_columns)\<close>,
  which has \<open>ep\<close> but never \<open>frame\<close>: a black frame numbered 7 and a frame whose only
  maximum fails the prefilter both yield a table without \<open>frame\<close>, while the same frame
  with a surviving feature yields a table with it.
\<close>

theorem empty_table_lacks_frame:
  "locate demo_ext (zeros\<lparr>frame_no := Some 7\<rparr>) (Scalar 3) 100 None None (Scalar 1) None None
     False 64 None True 10 True True True Auto
   = Inr ([BlackImage],
          \<lparr>columns = [''x'', ''y'', ''mass'', ''size'', ''ecc'', ''signal'', ''ep''], rows = []\<rparr>)
   \<and> locate demo_ext (peaks\<lparr>frame_no := Some 7\<rparr>) (Scalar 3) 100 None None (Scalar 1) None None
     False 64 None True 10 True True True Python
   = Inr ([NoPrefilterSurvivors],
          \<lparr>columns = [''x'', ''y'', ''mass'', ''size'', ''ecc'', ''signal'', ''ep''], rows = []\<rparr>)
   \<and> map_sum id (\<lambda>(ws, t). (ws, columns t, length (rows t)))
       (locate demo_ext (peaks\<lparr>frame_no := Some 7\<rparr>) (Scalar 3) 1 None None (Scalar 1) None None
          False 64 None True 10 True True True Python)
   = Inr ([], [''x'', ''y'', ''mass'', ''size'', ''ecc'', ''signal'', ''ep'', ''frame''], 1)"
  by code_simp

end
